theory Spec2Isabelle
  imports Complex_Main
begin

section \<open>Syntax-tree contexts and leaf values\<close>

text \<open>
  A \<open>ParserRuleContext\<close> is used by the builder only through its identity (as a
  dictionary key and as a traceback entry) and through \<open>parentCtx\<close>. A context is
  identified by its position: the syntax tree it belongs to and the path from the root.
  \<open>Name c\<close> is the context returned by \<open>c.name()\<close>, \<open>New_stmt c\<close> the one
  returned by \<open>c.assignable().new_stmt()\<close>, \<open>Child c i\<close> any other child.
\<close>

datatype ctx = File_input nat | Child ctx nat | Name ctx | New_stmt ctx

fun parentCtx :: "ctx \<Rightarrow> ctx option" where
  "parentCtx (File_input a) = None"
| "parentCtx (Child c i) = Some c"
| "parentCtx (Name c) = Some c"
| "parentCtx (New_stmt c) = Some c"

type_synonym TypeRef = "string list"

datatype key = IntKey int | StrKey string

datatype ReferencePartType = ReferencePartType (rp_name: string) (rp_key: "key option")

text \<open>
  A \<open>FieldRef\<close> is read by the builder as the sequence of its parts (\<open>len\<close>,
  iteration, \<open>stem\<close>, \<open>last\<close>); a trailing pin selector is the last part of
  that sequence.
\<close>

type_synonym FieldRef = "ReferencePartType list"

definition stem :: "FieldRef \<Rightarrow> FieldRef" where
  "stem r = butlast r"

type_synonym UnitType = string

text \<open>The pieces of an f-string: literal text and the interpolated objects.\<close>

datatype mpart =
    Txt string
  | PartP ReferencePartType
  | RefP FieldRef
  | TypeRefP TypeRef
  | KeyP key
  | NodeP nat
  | UnitP UnitType
  | NodesP "nat list"

type_synonym message = "mpart list"

section \<open>Exceptions\<close>

datatype exc_class =
    UserException
  | UserKeyError
  | UserTypeError
  | UserValueError
  | UserSyntaxError
  | UserNotImplementedError
  | UserIncompatibleUnitError
  | UserUnknownUnitError
  | UserAlreadyExistsError
  | UserFileNotFoundError
  | UserImportNotFoundError
  | UserActionWithoutEffectError
  | DeprecatedException
  | ParamAssignmentIsGospel

record diag =
  d_class :: exc_class
  d_origin :: "ctx option"
  d_message :: message
  d_traceback :: "ctx list option"

definition from_ctx :: "exc_class \<Rightarrow> ctx \<Rightarrow> message \<Rightarrow> ctx list option \<Rightarrow> diag" where
  "from_ctx c origin m tb =
     \<lparr>d_class = c, d_origin = Some origin, d_message = m, d_traceback = tb\<rparr>"

definition plain_exception :: "exc_class \<Rightarrow> message \<Rightarrow> diag" where
  "plain_exception c m = \<lparr>d_class = c, d_origin = None, d_message = m, d_traceback = None\<rparr>"

text \<open>
  The exceptions the error collectors accumulate (user diagnostics and the
  skip signal), and the Python exceptions they let through.
\<close>

datatype exn = User diag | SkipPriorFailedException

datatype obj = ObjNode nat | ObjType string

datatype py_exc =
    AttributeError string "key option" obj
  | ValueError message
  | IndexError
  | TypeError
  | AssertionError
  | RecursionError
  | FieldExistsError string
  | NodeException
  | UnitCompatibilityError message

datatype 'a outcome = Return 'a | Raise "exn list" | Crash py_exc

section \<open>The object graph\<close>

datatype node_kind = Module | ModuleInterface | Parameter | Node

datatype pyclass =
    NativeClass string node_kind
  | AtoClass nat string pyclass ctx

fun class_kind :: "pyclass \<Rightarrow> node_kind" where
  "class_kind (NativeClass n k) = k"
| "class_kind (AtoClass i n base c) = class_kind base"

text \<open>
  What \<open>getattr(node, name)\<close> can give: a node, a dict, a list, or any other
  Python object (named by its type).
\<close>

datatype pyval =
    PyNode nat
  | PyDict "(key \<times> pyval) list"
  | PyList "pyval list"
  | PyOther string

fun is_Node :: "pyval \<Rightarrow> bool" where
  "is_Node (PyNode n) = True"
| "is_Node v = False"

fun type_name :: "pyval \<Rightarrow> string" where
  "type_name (PyNode n) = ''Node''"
| "type_name (PyDict d) = ''dict''"
| "type_name (PyList l) = ''list''"
| "type_name (PyOther t) = t"

datatype Quantity = Quantity (magnitude: real) (units: UnitType)

datatype Quantity_Interval =
    Single Quantity
  | Range Quantity Quantity
  | Range_from_center Quantity Quantity
  | Range_from_center_rel Quantity real

fun get_units :: "Quantity_Interval \<Rightarrow> UnitType" where
  "get_units (Single q) = units q"
| "get_units (Range a b) = units a"
| "get_units (Range_from_center c t) = units c"
| "get_units (Range_from_center_rel c r) = units c"

datatype trait =
    from_dsl ctx
  | has_ato_cmp_attrs
  | is_app_root
  | is_pickable_by_supplier_id
  | is_pickable_by_part_number
  | does_not_require_picker_check

text \<open>
  The constraints the builder puts on a parameter: \<open>alias_is(v)\<close>,
  \<open>alias_is(-v)\<close>, \<open>constrain_subset(v)\<close>, \<open>constrain_superset(v)\<close>.
\<close>

datatype constraint =
    Is Quantity_Interval
  | IsNegated Quantity_Interval
  | IsSubset Quantity_Interval
  | IsSuperset Quantity_Interval

record node =
  n_class :: pyclass
  n_attrs :: "string \<rightharpoonup> pyval"
  n_runtime :: "string \<rightharpoonup> nat"
  n_traits :: "trait list"
  n_parent :: "(nat \<times> string) option"
  n_most_special :: nat
  n_units :: UnitType
  n_constraints :: "constraint list"

type_synonym graph = "nat \<Rightarrow> node"

definition isinstance :: "graph \<Rightarrow> nat \<Rightarrow> node_kind \<Rightarrow> bool" where
  "isinstance g n k = (class_kind (n_class (g n)) = k)"

definition has_trait :: "graph \<Rightarrow> nat \<Rightarrow> trait \<Rightarrow> bool" where
  "has_trait g n t = (t \<in> set (n_traits (g n)))"

text \<open>\<open>result[key]\<close> on a Python list with an integer key below \<open>len(result)\<close>.\<close>

definition list_index :: "pyval list \<Rightarrow> int \<Rightarrow> py_exc + pyval" where
  "list_index l i =
     (if 0 \<le> i then Inr (l ! nat i)
      else if - i \<le> int (length l) then Inr (l ! nat (int (length l) + i))
      else Inl IndexError)"

definition get_node_attr :: "graph \<Rightarrow> nat \<Rightarrow> ReferencePartType \<Rightarrow> py_exc + pyval" where
  "get_node_attr g node r =
     (let found =
        (case n_attrs (g node) (rp_name r) of
           Some result \<Rightarrow>
             if rp_key r \<noteq> None \<and> is_Node result then
               Inl (ValueError [Txt (rp_name r), Txt '' is not subscriptable''])
             else if \<not> is_Node result \<and> rp_key r = None then
               \<comment> \<open>building the message evaluates \<open>type(result)._ref\<close>, which raises\<close>
               Inl (AttributeError ''_ref'' None (ObjType (type_name result)))
             else
               (case result of
                  PyDict d \<Rightarrow>
                    (case rp_key r of
                       None \<Rightarrow> Inl AssertionError
                     | Some k \<Rightarrow>
                         (case map_of d k of
                            None \<Rightarrow> Inl (AttributeError (rp_name r) (Some k) (ObjNode node))
                          | Some v \<Rightarrow> Inr v))
                | PyList l \<Rightarrow>
                    (case rp_key r of
                       None \<Rightarrow> Inl AssertionError
                     | Some (StrKey s) \<Rightarrow>
                         Inl (ValueError [Txt ''Key `'', KeyP (StrKey s), Txt ''` is not an integer''])
                     | Some (IntKey i) \<Rightarrow>
                         if i \<ge> int (length l) then
                           Inl (AttributeError (rp_name r) (Some (IntKey i)) (ObjNode node))
                         else list_index l i)
                | _ \<Rightarrow> Inr result)
         | None \<Rightarrow>
             (case n_runtime (g node) (rp_name r) of
                Some c \<Rightarrow>
                  if rp_key r = None then Inr (PyNode c)
                  else Inl (AttributeError (rp_name r) (rp_key r) (ObjNode node))
              | None \<Rightarrow> Inl (AttributeError (rp_name r) (rp_key r) (ObjNode node))))
      in case found of
           Inr (PyNode m) \<Rightarrow>
             if isinstance g m Module then Inr (PyNode (n_most_special (g m))) else found
         | _ \<Rightarrow> found)"


section \<open>Syntax trees\<close>

text \<open>
  The statement forms of the builder that are embedded: imports, type definitions,
  \<open>pass\<close>, declarations, assignments of \<open>new\<close> instances and of physical
  literals, cumulative and set assignments of physical literals, and connections
  between field references.
\<close>

datatype blocktype = COMPONENT | MODULE | INTERFACE

text \<open>A \<open>NUMBER\<close> token: its text starts with \<open>0x\<close>, or it is read by \<open>float\<close>.\<close>

datatype number = HexNumber nat | FloatNumber real

datatype quantity_ctx =
  QuantityContext (q_ctx: ctx) (q_MINUS: bool) (q_NUMBER: number) (q_name: "string option")

datatype tol_suffix = PERCENT | TolName string | NoSuffix

datatype tolerance_ctx =
  Bilateral_toleranceContext (t_ctx: ctx) (t_NUMBER: number) (t_suffix: tol_suffix)

datatype literal_physical =
    quantity quantity_ctx
  | bilateral_quantity ctx quantity_ctx tolerance_ctx
  | bound_quantity ctx quantity_ctx quantity_ctx

datatype decl_ctx =
  Declaration_stmtContext (dec_ctx: ctx) (dec_ref: FieldRef) (dec_unit: "string option")

datatype ref_or_decl = field_reference FieldRef | declaration_stmt decl_ctx

datatype assignable = new_stmt TypeRef | literal_physical literal_physical

datatype cum_operator = ADD_ASSIGN | SUB_ASSIGN

datatype set_operator = OR_ASSIGN | AND_ASSIGN

datatype connectable = ConnectableContext (cn_ctx: ctx) (cn_ref: FieldRef)

datatype stmt =
    Pass_stmt
  | Import_stmt ctx "string option" "TypeRef list"
  | Dep_import_stmt ctx string TypeRef
  | Blockdef_stmt blockdef
  | Declaration_stmt decl_ctx
  | Assign_stmt ctx ref_or_decl assignable
  | Cum_assign_stmt ctx ref_or_decl cum_operator literal_physical
  | Set_assign_stmt ctx ref_or_decl set_operator literal_physical
  | Connect_stmt ctx "connectable list"
and blockdef =
  BlockdefContext (bctx: ctx) (bname: string) (btype: blocktype)
    (bsuper: "TypeRef option") (bbody: "stmt list")

datatype file_input = File_inputContext (ast_id: nat) (ast_stmts: "stmt list")

definition file_ctx :: "file_input \<Rightarrow> ctx" where
  "file_ctx ast = File_input (ast_id ast)"

section \<open>Scope tables\<close>

type_synonym path = string

datatype ImportPlaceholder =
  ImportPlaceholder (ip_ref: TypeRef) (from_path: string) (original_ctx: ctx)

datatype item = Class pyclass | Blockdef blockdef | Placeholder ImportPlaceholder

record Context =
  file_path :: "path option"
  scope_ctx :: ctx
  refs :: "TypeRef \<rightharpoonup> item"

section \<open>The builder's surroundings\<close>

text \<open>What \<open>getattr(F, name)\<close> gives: a class, or an attribute that is no class.\<close>

datatype fattr = FClass pyclass | FObject

text \<open>A loaded Python unit or attribute: its attributes, and the node class it is (if any).\<close>

datatype pyobj = PyObj "(string \<times> pyobj) list" "pyclass option"

text \<open>
  The library registry, the shim table, the file system, the parser, the unit registry
  and the runtime's connect are not part of the builder; they are its parameters.
\<close>

record env =
  library_F :: "string \<rightharpoonup> fattr"
  shim_map :: "(string \<times> pyclass \<times> string) list"
  addr_from_parts :: "path \<Rightarrow> TypeRef \<Rightarrow> string"
  path_exists :: "path \<Rightarrow> bool"
  path_join :: "path \<Rightarrow> string \<Rightarrow> path"
  path_parent :: "path \<Rightarrow> path"
  path_suffix :: "path \<Rightarrow> string"
  sanitise_path :: "path \<Rightarrow> path"
  project_paths :: "path list"
  library_dir :: path
  get_ast_from_file :: "path \<Rightarrow> file_input"
  import_from_path :: "path \<Rightarrow> pyobj option"
  P_Unit :: "string \<Rightarrow> UnitType option"
  is_compatible_with :: "UnitType \<Rightarrow> UnitType \<Rightarrow> bool"
  unitless :: "UnitType \<Rightarrow> bool"
  unit_mul :: "UnitType \<Rightarrow> UnitType \<Rightarrow> UnitType"
  connect :: "graph \<Rightarrow> nat \<Rightarrow> nat \<Rightarrow> exn list"

definition dimensionless :: UnitType where
  "dimensionless = ''dimensionless''"

section \<open>The builder's state\<close>

record ParameterDefinition =
  pd_ctx :: ctx
  pd_traceback :: "ctx list"
  pd_ref :: FieldRef
  pd_value :: "Quantity_Interval option"

definition is_declaration :: "ParameterDefinition \<Rightarrow> bool" where
  "is_declaration a = (pd_value a = None)"

definition is_definition :: "ParameterDefinition \<Rightarrow> bool" where
  "is_definition a = (\<not> is_declaration a)"

definition is_root_assignment :: "ParameterDefinition \<Rightarrow> bool" where
  "is_root_assignment a = (if \<not> is_definition a then False else length (pd_ref a) = 1)"

text \<open>What the builder does outside its own state: file probes, parses, surveys, loads.\<close>

datatype event = Probe path | Parse path | Survey ctx | Load path

record bob =
  scopes :: "ctx \<rightharpoonup> Context"
  python_classes :: "ctx \<rightharpoonup> pyclass"
  node_stack :: "nat list"
  traceback_stack :: "ctx list"
  param_assignments :: "(nat \<times> ParameterDefinition list) list"
  search_paths :: "path list"
  failed_nodes :: "nat \<rightharpoonup> string set"
  graph :: graph
  next_node :: nat
  next_class :: nat
  connections :: "(nat \<times> nat) list"
  log :: "diag list"
  trace :: "event list"

type_synonym 'a result = "'a outcome \<times> bob"

definition and_then :: "'a outcome \<times> 's \<Rightarrow> ('a \<Rightarrow> 's \<Rightarrow> 'b outcome \<times> 's) \<Rightarrow> 'b outcome \<times> 's" where
  "and_then m f =
     (case m of
        (Return a, s) \<Rightarrow> f a s
      | (Raise es, s) \<Rightarrow> (Raise es, s)
      | (Crash c, s) \<Rightarrow> (Crash c, s))"

text \<open>\<open>downgrade\<close>: the diagnostic is logged and execution continues.\<close>

definition downgrade :: "diag \<Rightarrow> bob \<Rightarrow> bob" where
  "downgrade d st = st\<lparr>log := log st @ [d]\<rparr>"

text \<open>\<open>StackList.enter\<close>: push, run the body, pop whatever the body did.\<close>

definition enter_traceback :: "ctx \<Rightarrow> (bob \<Rightarrow> 'a result) \<Rightarrow> bob \<Rightarrow> 'a result" where
  "enter_traceback c body st =
     (case body (st\<lparr>traceback_stack := traceback_stack st @ [c]\<rparr>) of
        (r, st1) \<Rightarrow>
          if traceback_stack st1 = [] then (Crash IndexError, st1)
          else (r, st1\<lparr>traceback_stack := butlast (traceback_stack st1)\<rparr>))"

definition enter_node :: "nat \<Rightarrow> (bob \<Rightarrow> 'a result) \<Rightarrow> bob \<Rightarrow> 'a result" where
  "enter_node n body st =
     (case body (st\<lparr>node_stack := node_stack st @ [n]\<rparr>) of
        (r, st1) \<Rightarrow>
          if node_stack st1 = [] then (Crash IndexError, st1)
          else (r, st1\<lparr>node_stack := butlast (node_stack st1)\<rparr>))"

text \<open>\<open>list(dict.fromkeys(xs))\<close>: the first occurrence of every element, in order.\<close>

definition dict_fromkeys :: "'a list \<Rightarrow> 'a list" where
  "dict_fromkeys xs = rev (remdups (rev xs))"

definition get_traceback :: "bob \<Rightarrow> ctx list" where
  "get_traceback st = dict_fromkeys (traceback_stack st)"

text \<open>
  \<open>visit_iterable_helper\<close>: every child is visited; the diagnostics the children
  raise are collected and raised together at the end; any other exception ends the
  visit at once.
\<close>

fun visit_iterable_helper ::
  "('c \<Rightarrow> 's \<Rightarrow> 'r list outcome \<times> 's) \<Rightarrow> 'c list \<Rightarrow> exn list \<Rightarrow> 'r list \<Rightarrow> 's
     \<Rightarrow> 'r list outcome \<times> 's" where
  "visit_iterable_helper visit [] errs rs s = (if errs = [] then Return rs else Raise errs, s)"
| "visit_iterable_helper visit (c # cs) errs rs s =
     (case visit c s of
        (Return r, s1) \<Rightarrow> visit_iterable_helper visit cs errs (rs @ r) s1
      | (Raise es, s1) \<Rightarrow> visit_iterable_helper visit cs (errs @ es) rs s1
      | (Crash x, s1) \<Rightarrow> (Crash x, s1))"

section \<open>Wendy, the surveyor\<close>

definition py_strip :: "string \<Rightarrow> string \<Rightarrow> string" where
  "py_strip chars s =
     rev (dropWhile (\<lambda>c. c \<in> set chars) (rev (dropWhile (\<lambda>c. c \<in> set chars) s)))"

definition visitString :: "string \<Rightarrow> string" where
  "visitString raw = py_strip [CHR 0x22, CHR 0x27] raw"

type_synonym entry = "TypeRef \<times> item \<times> ctx"

definition is_module_or_interface :: "pyclass \<Rightarrow> bool" where
  "is_module_or_interface c = (class_kind c = Module \<or> class_kind c = ModuleInterface)"

text \<open>The body of the loop over the references of a standard library import.\<close>

definition std_import :: "env \<Rightarrow> ctx \<Rightarrow> TypeRef \<Rightarrow> entry list outcome" where
  "std_import E c r =
     (if length r > 1 then
        Raise [User (from_ctx UserKeyError c
                 [Txt ''Standard library imports must be single-name''] None)]
      else
        (case r of
           [] \<Rightarrow> Crash IndexError
         | nm # rest \<Rightarrow>
             (case library_F E nm of
                None \<Rightarrow>
                  Raise [User (from_ctx UserKeyError c
                    [Txt ''Unknown standard library module: '', Txt nm] None)]
              | Some FObject \<Rightarrow> Crash TypeError
              | Some (FClass cls) \<Rightarrow>
                  if \<not> is_module_or_interface cls then
                    Raise [User (from_ctx UserKeyError c
                      [Txt ''Unknown standard library module: '', Txt nm] None)]
                  else Return [(r, Class cls, c)])))"

definition visitImport_stmt ::
  "env \<Rightarrow> ctx \<Rightarrow> string option \<Rightarrow> TypeRef list \<Rightarrow> entry list outcome" where
  "visitImport_stmt E c from_string references =
     (case from_string of
        Some raw \<Rightarrow>
          Return (map (\<lambda>r. (r, Placeholder (ImportPlaceholder r (visitString raw) c), c))
                    references)
      | None \<Rightarrow>
          fst (visit_iterable_helper (\<lambda>r u. (std_import E c r, u)) references [] [] ()))"

definition visitDep_import_stmt ::
  "ctx \<Rightarrow> string \<Rightarrow> TypeRef \<Rightarrow> diag list \<Rightarrow> entry list outcome \<times> diag list" where
  "visitDep_import_stmt c raw r lg =
     (Return [(r, Placeholder (ImportPlaceholder r (visitString raw) c), c)],
      lg @ [from_ctx DeprecatedException c
              [Txt ''`import <something> from <path>` is deprecated''] None])"

fun wendy_visit :: "env \<Rightarrow> stmt \<Rightarrow> diag list \<Rightarrow> entry list outcome \<times> diag list" where
  "wendy_visit E (Import_stmt c from_string references) lg =
     (visitImport_stmt E c from_string references, lg)"
| "wendy_visit E (Dep_import_stmt c raw r) lg = visitDep_import_stmt c raw r lg"
| "wendy_visit E (Blockdef_stmt b) lg = (Return [([bname b], Blockdef b, bctx b)], lg)"
| "wendy_visit E s lg = (Return [], lg)"

definition endswith :: "string \<Rightarrow> string \<Rightarrow> bool" where
  "endswith s t = (length t \<le> length s \<and> drop (length s - length t) s = t)"

definition find_shim :: "env \<Rightarrow> path option \<Rightarrow> TypeRef \<Rightarrow> (pyclass \<times> string) option" where
  "find_shim E fp r =
     (case fp of
        None \<Rightarrow> None
      | Some p \<Rightarrow>
          (case filter (\<lambda>(shim_addr, shim). endswith (addr_from_parts E p r) shim_addr)
                  (shim_map E) of
             [] \<Rightarrow> None
           | (shim_addr, shim) # rest \<Rightarrow> Some shim))"

definition survey_entry :: "env \<Rightarrow> entry \<Rightarrow> Context \<times> diag list \<Rightarrow> Context \<times> diag list" where
  "survey_entry E en acc =
     (case (en, acc) of
        ((r, it, item_ctx), (context, lg)) \<Rightarrow>
          (let lg1 =
                 (if refs context r \<noteq> None then
                    lg @ [from_ctx UserKeyError item_ctx
                            [Txt ''`'', TypeRefP r, Txt ''` already declared. Shadowing original.'']
                            None]
                  else lg)
           in case find_shim E (file_path context) r of
                Some (shim_cls, preferred) \<Rightarrow>
                  (context\<lparr>refs := (refs context)(r \<mapsto> Class shim_cls)\<rparr>,
                   lg1 @ [from_ctx DeprecatedException
                            (case it of Blockdef b \<Rightarrow> Name item_ctx | _ \<Rightarrow> item_ctx)
                            [Txt ''`'', TypeRefP r, Txt ''` is deprecated. Use `'',
                             Txt preferred, Txt ''` instead.''] None])
              | None \<Rightarrow> (context\<lparr>refs := (refs context)(r \<mapsto> it)\<rparr>, lg1)))"

definition survey :: "env \<Rightarrow> path option \<Rightarrow> file_input \<Rightarrow> diag list \<Rightarrow> Context outcome \<times> diag list" where
  "survey E fp ast lg =
     (case visit_iterable_helper (wendy_visit E) (ast_stmts ast) [] [] lg of
        (Return entries, lg1) \<Rightarrow>
          (case foldl (\<lambda>acc en. survey_entry E en acc)
                  (\<lparr>file_path = fp, scope_ctx = file_ctx ast, refs = Map.empty\<rparr>, lg1) entries of
             (context, lg2) \<Rightarrow> (Return context, lg2))
      | (Raise es, lg1) \<Rightarrow> (Raise es, lg1)
      | (Crash x, lg1) \<Rightarrow> (Crash x, lg1))"


section \<open>Scopes and imports\<close>

definition add_trace :: "event list \<Rightarrow> bob \<Rightarrow> bob" where
  "add_trace evs st = st\<lparr>trace := trace st @ evs\<rparr>"

definition index_ast :: "env \<Rightarrow> file_input \<Rightarrow> path option \<Rightarrow> bob \<Rightarrow> Context result" where
  "index_ast E ast fp st =
     (case scopes st (file_ctx ast) of
        Some context \<Rightarrow> (Return context, st)
      | None \<Rightarrow>
          (case survey E fp ast (log st) of
             (Return context, lg) \<Rightarrow>
               (Return context,
                add_trace [Survey (file_ctx ast)]
                  (st\<lparr>scopes := (scopes st)(file_ctx ast \<mapsto> context), log := lg\<rparr>))
           | (Raise es, lg) \<Rightarrow> (Raise es, add_trace [Survey (file_ctx ast)] (st\<lparr>log := lg\<rparr>))
           | (Crash x, lg) \<Rightarrow> (Crash x, add_trace [Survey (file_ctx ast)] (st\<lparr>log := lg\<rparr>))))"

definition index_file :: "env \<Rightarrow> path \<Rightarrow> bob \<Rightarrow> Context result" where
  "index_file E fp st = index_ast E (get_ast_from_file E fp) (Some fp) (add_trace [Parse fp] st)"

definition get_search_paths :: "env \<Rightarrow> bob \<Rightarrow> Context \<Rightarrow> path list" where
  "get_search_paths E st context =
     (case file_path context of None \<Rightarrow> [] | Some fp \<Rightarrow> [path_parent E fp])
     @ search_paths st @ project_paths E @ [library_dir E]"

text \<open>The \<open>for ... else\<close> loop over the search paths: the first candidate that exists.\<close>

fun probe :: "env \<Rightarrow> path list \<Rightarrow> string \<Rightarrow> path option \<times> event list" where
  "probe E [] fp = (None, [])"
| "probe E (p # ps) fp =
     (if path_exists E (path_join E p fp) then (Some (path_join E p fp), [Probe (path_join E p fp)])
      else (case probe E ps fp of (r, evs) \<Rightarrow> (r, Probe (path_join E p fp) # evs)))"

fun getattr_walk :: "pyobj \<Rightarrow> string list \<Rightarrow> string + pyobj" where
  "getattr_walk ob [] = Inr ob"
| "getattr_walk (PyObj attrs c) (r # rs) =
     (case map_of attrs r of None \<Rightarrow> Inl r | Some ob \<Rightarrow> getattr_walk ob rs)"

definition import_item :: "env \<Rightarrow> Context \<Rightarrow> ImportPlaceholder \<Rightarrow> bob \<Rightarrow> item result" where
  "import_item E context it st =
     (case probe E (get_search_paths E st context) (from_path it) of
        (None, evs) \<Rightarrow>
          (Raise [User (from_ctx UserFileNotFoundError (original_ctx it)
                    [Txt ''Can't find '', Txt (from_path it)] None)],
           add_trace evs st)
      | (Some candidate, evs) \<Rightarrow>
          (let fp = sanitise_path E candidate; st1 = add_trace evs st in
           if path_suffix E fp = ''.py'' then
             (case import_from_path E fp of
                None \<Rightarrow>
                  (Raise [User (from_ctx UserImportNotFoundError (original_ctx it) [Txt fp] None)],
                   add_trace [Load fp] st1)
              | Some unit \<Rightarrow>
                  (case getattr_walk unit (ip_ref it) of
                     Inl r \<Rightarrow>
                       (Raise [User (from_ctx UserKeyError (original_ctx it)
                                 [Txt ''No attribute `'', Txt r, Txt ''` found''] None)],
                        add_trace [Load fp] st1)
                   | Inr (PyObj attrs (Some cls)) \<Rightarrow> (Return (Class cls), add_trace [Load fp] st1)
                   | Inr (PyObj attrs None) \<Rightarrow> (Crash AssertionError, add_trace [Load fp] st1)))
           else if path_suffix E fp = ''.ato'' then
             and_then (index_file E fp st1)
               (\<lambda>context1 st2.
                  case refs context1 (ip_ref it) of
                    None \<Rightarrow>
                      (Raise [User (from_ctx UserKeyError (original_ctx it)
                                [Txt ''No declaration of `'', TypeRefP (ip_ref it), Txt ''` in '',
                                 Txt fp] None)], st2)
                  | Some (Placeholder ph) \<Rightarrow>
                      (Raise [User (from_ctx UserTypeError (original_ctx it)
                                [Txt ''Importing a import is not supported''] None)], st2)
                  | Some node \<Rightarrow> (Return node, st2))
           else
             (Raise [User (from_ctx UserImportNotFoundError (original_ctx it)
                       [Txt ''Can't import file type '', Txt (path_suffix E fp)] None)], st1)))"

text \<open>
  The ascent \<open>while ctx_ not in self._scopes: ctx_ = ctx_.parentCtx\<close>;
  \<open>None\<close> when the root is passed without finding a scope.
\<close>

fun find_scope :: "(ctx \<rightharpoonup> Context) \<Rightarrow> ctx \<Rightarrow> ctx option" where
  "find_scope sc (File_input a) = (if sc (File_input a) \<noteq> None then Some (File_input a) else None)"
| "find_scope sc (Child c i) = (if sc (Child c i) \<noteq> None then Some (Child c i) else find_scope sc c)"
| "find_scope sc (Name c) = (if sc (Name c) \<noteq> None then Some (Name c) else find_scope sc c)"
| "find_scope sc (New_stmt c) = (if sc (New_stmt c) \<noteq> None then Some (New_stmt c) else find_scope sc c)"

text \<open>The site a class is referenced from: a type definition, or any other context.\<close>

datatype site = AtBlockdef blockdef | AtCtx ctx

fun site_ctx :: "site \<Rightarrow> ctx" where
  "site_ctx (AtBlockdef b) = bctx b"
| "site_ctx (AtCtx c) = c"

definition get_referenced_class :: "env \<Rightarrow> site \<Rightarrow> TypeRef \<Rightarrow> bob \<Rightarrow> item result" where
  "get_referenced_class E s r st =
     (if r = [] then
        (case s of
           AtBlockdef b \<Rightarrow> (Return (Blockdef b), st)
         | AtCtx c \<Rightarrow> (Crash (ValueError [Txt ''Can't get class `'', TypeRefP r, Txt ''`'']), st))
      else
        (case find_scope (scopes st) (site_ctx s) of
           None \<Rightarrow> (Crash (ValueError [Txt ''No scope found for `'', TypeRefP r, Txt ''`'']), st)
         | Some c \<Rightarrow>
             (case scopes st c of
                None \<Rightarrow> (Crash (ValueError [Txt ''No scope found for `'', TypeRefP r, Txt ''`'']), st)
              | Some context \<Rightarrow>
                  (case refs context r of
                     None \<Rightarrow>
                       (Raise [User (from_ctx UserKeyError (site_ctx s)
                                 [Txt ''No class or block definition found for `'', TypeRefP r,
                                  Txt ''`''] None)], st)
                   | Some (Placeholder ph) \<Rightarrow>
                       and_then (import_item E context ph st)
                         (\<lambda>it st1.
                            (Return it,
                             st1\<lparr>scopes :=
                                   (scopes st1)(c \<mapsto> context\<lparr>refs := (refs context)(r \<mapsto> it)\<rparr>)\<rparr>))
                   | Some it \<Rightarrow> (Return it, st)))))"

section \<open>Field references\<close>

definition current_node :: "bob \<Rightarrow> py_exc + nat" where
  "current_node st = (if node_stack st = [] then Inl IndexError else Inr (last (node_stack st)))"

text \<open>
  \<open>get_node_attr\<close> on whatever the previous step gave; a value that is no node is
  taken to have neither the attribute nor a \<open>runtime\<close>.
\<close>

definition node_attr :: "graph \<Rightarrow> pyval \<Rightarrow> ReferencePartType \<Rightarrow> py_exc + pyval" where
  "node_attr g v r =
     (case v of
        PyNode n \<Rightarrow> get_node_attr g n r
      | _ \<Rightarrow> Inl (AttributeError ''runtime'' None (ObjType (type_name v))))"

definition is_failed :: "bob \<Rightarrow> pyval \<Rightarrow> string \<Rightarrow> bool" where
  "is_failed st v nm =
     (case v of
        PyNode n \<Rightarrow> (case failed_nodes st n of None \<Rightarrow> False | Some names \<Rightarrow> nm \<in> names)
      | _ \<Rightarrow> False)"

definition attr_name :: "string \<Rightarrow> key option \<Rightarrow> message" where
  "attr_name nm k = (case k of None \<Rightarrow> [Txt nm] | Some k' \<Rightarrow> [Txt nm, Txt ''['', KeyP k', Txt '']''])"

fun walk_ref :: "bob \<Rightarrow> ctx \<Rightarrow> FieldRef \<Rightarrow> nat \<Rightarrow> pyval \<Rightarrow> FieldRef \<Rightarrow> pyval outcome" where
  "walk_ref st c r i v [] = Return v"
| "walk_ref st c r i v (nm # rest) =
     (case node_attr (graph st) v nm of
        Inr v1 \<Rightarrow> walk_ref st c r (Suc i) v1 rest
      | Inl (AttributeError ex_name ex_key ob) \<Rightarrow>
          if is_failed st v (rp_name nm) then Raise [SkipPriorFailedException]
          else
            Raise [User (from_ctx UserKeyError c
              (if i > 0 then
                 [Txt ''`'', RefP (take i r), Txt ''` has no attribute `''] @ attr_name ex_name ex_key
                 @ [Txt ''`'']
               else [Txt ''No attribute `'', PartP nm, Txt ''`''])
              (Some (get_traceback st)))]
      | Inl (ValueError m) \<Rightarrow> Raise [User (from_ctx UserKeyError c m (Some (get_traceback st)))]
      | Inl x \<Rightarrow> Crash x)"

definition get_referenced_node :: "bob \<Rightarrow> FieldRef \<Rightarrow> ctx \<Rightarrow> pyval outcome" where
  "get_referenced_node st r c =
     (case current_node st of
        Inl x \<Rightarrow> Crash x
      | Inr n \<Rightarrow> walk_ref st c r 0 (PyNode n) r)"

definition is_Parameter :: "graph \<Rightarrow> pyval \<Rightarrow> bool" where
  "is_Parameter g v = (case v of PyNode n \<Rightarrow> isinstance g n Parameter | _ \<Rightarrow> False)"

definition get_param :: "bob \<Rightarrow> pyval \<Rightarrow> ReferencePartType \<Rightarrow> ctx \<Rightarrow> nat outcome" where
  "get_param st v r src_ctx =
     (case node_attr (graph st) v r of
        Inl (AttributeError ex_name ex_key ob) \<Rightarrow>
          if is_failed st v (rp_name r) then Raise [SkipPriorFailedException]
          else
            Raise [User (from_ctx UserNotImplementedError src_ctx
              [Txt ''Parameter `'', PartP r,
               Txt ''` not found and forward-declared params are not yet implemented'']
              (Some (get_traceback st)))]
      | Inl (ValueError m) \<Rightarrow> Raise [User (from_ctx UserValueError src_ctx m (Some (get_traceback st)))]
      | Inl x \<Rightarrow> Crash x
      | Inr (PyNode p) \<Rightarrow>
          if isinstance (graph st) p Parameter then Return p
          else
            Raise [User (from_ctx UserSyntaxError src_ctx
              [Txt ''Node '', PartP r, Txt '' is not a Parameter''] (Some (get_traceback st)))]
      | Inr other \<Rightarrow>
          Raise [User (from_ctx UserSyntaxError src_ctx
            [Txt ''Node '', PartP r, Txt '' is not a Parameter''] (Some (get_traceback st)))])"

text \<open>
  The runtime's construction of a hollow instance of a class, and its \<open>add\<close> of a
  child under a name.
\<close>

definition hollow :: "pyclass \<Rightarrow> nat \<Rightarrow> UnitType \<Rightarrow> node" where
  "hollow cls self u =
     \<lparr>n_class = cls, n_attrs = Map.empty, n_runtime = Map.empty, n_traits = [],
      n_parent = None, n_most_special = self, n_units = u, n_constraints = []\<rparr>"

definition instantiate :: "pyclass \<Rightarrow> UnitType \<Rightarrow> bob \<Rightarrow> nat \<times> bob" where
  "instantiate cls u st =
     (next_node st,
      st\<lparr>graph := (graph st)(next_node st := hollow cls (next_node st) u),
         next_node := Suc (next_node st)\<rparr>)"

definition add_child :: "nat \<Rightarrow> string \<Rightarrow> nat \<Rightarrow> graph \<Rightarrow> py_exc + graph" where
  "add_child parent nm child g =
     (if n_runtime (g parent) nm \<noteq> None then Inl (FieldExistsError nm)
      else
        Inr (g(parent := (g parent)\<lparr>n_runtime := (n_runtime (g parent))(nm \<mapsto> child)\<rparr>,
               child := (g child)\<lparr>n_parent := Some (parent, nm)\<rparr>)))"

definition add_to_container :: "nat \<Rightarrow> string \<Rightarrow> string \<Rightarrow> nat \<Rightarrow> graph \<Rightarrow> py_exc + graph" where
  "add_to_container parent attr k child g =
     (case n_attrs (g parent) attr of
        None \<Rightarrow> Inl (AttributeError attr None (ObjNode parent))
      | Some (PyDict d) \<Rightarrow>
          if map_of d (StrKey k) \<noteq> None then Inl (FieldExistsError k)
          else
            Inr (g(parent := (g parent)\<lparr>n_attrs :=
                                 (n_attrs (g parent))(attr \<mapsto> PyDict (d @ [(StrKey k, PyNode child)]))\<rparr>,
                   child := (g child)\<lparr>n_parent := Some (parent, k)\<rparr>))
      | Some other \<Rightarrow> Inl NodeException)"

definition add_trait :: "nat \<Rightarrow> trait \<Rightarrow> graph \<Rightarrow> graph" where
  "add_trait n t g = g(n := (g n)\<lparr>n_traits := n_traits (g n) @ [t]\<rparr>)"

definition Parameter_class :: pyclass where
  "Parameter_class = NativeClass ''Parameter'' Parameter"

definition check_units :: "env \<Rightarrow> bob \<Rightarrow> nat \<Rightarrow> UnitType \<Rightarrow> ReferencePartType \<Rightarrow> ctx \<Rightarrow> nat result" where
  "check_units E st p u r src_ctx =
     (if \<not> is_compatible_with E (n_units (graph st p)) u then
        (Raise [User (from_ctx UserIncompatibleUnitError src_ctx
                  [Txt ''Given units ('', UnitP u, Txt '') are incompatible with existing units ('',
                   UnitP (n_units (graph st p)), Txt '').''] (Some (get_traceback st)))], st)
      else (Return p, st))"

definition new_param ::
  "env \<Rightarrow> pyval \<Rightarrow> ReferencePartType \<Rightarrow> UnitType \<Rightarrow> ctx \<Rightarrow> bob \<Rightarrow> nat result" where
  "new_param E v r u src_ctx st =
     (case rp_key r of
        Some (IntKey i) \<Rightarrow>
          (Raise [User (from_ctx UserNotImplementedError src_ctx
                    [Txt ''Can't forward assign to a non-string key `'', PartP r, Txt ''`'']
                    (Some (get_traceback st)))], st)
      | Some (StrKey k) \<Rightarrow>
          (case v of
             PyNode n \<Rightarrow>
               (case instantiate Parameter_class u st of
                  (p, st1) \<Rightarrow>
                    (case add_to_container n (rp_name r) k p (graph st1) of
                       Inl x \<Rightarrow> (Crash x, st1)
                     | Inr g \<Rightarrow> check_units E (st1\<lparr>graph := g\<rparr>) p u r src_ctx))
           | _ \<Rightarrow> (Crash (AttributeError (rp_name r) None (ObjType (type_name v))), st))
      | None \<Rightarrow>
          (case v of
             PyNode n \<Rightarrow>
               (case instantiate Parameter_class u st of
                  (p, st1) \<Rightarrow>
                    (case add_child n (rp_name r) p (graph st1) of
                       Inl x \<Rightarrow> (Crash x, st1)
                     | Inr g \<Rightarrow> check_units E (st1\<lparr>graph := g\<rparr>) p u r src_ctx))
           | _ \<Rightarrow> (Crash (AttributeError ''add'' None (ObjType (type_name v))), st)))"

definition ensure_param ::
  "env \<Rightarrow> pyval \<Rightarrow> ReferencePartType \<Rightarrow> UnitType \<Rightarrow> ctx \<Rightarrow> bob \<Rightarrow> nat result" where
  "ensure_param E v r u src_ctx st =
     (case node_attr (graph st) v r of
        Inl (AttributeError ex_name ex_key ob) \<Rightarrow> new_param E v r u src_ctx st
      | Inl (ValueError m) \<Rightarrow>
          (Raise [User (from_ctx UserValueError src_ctx m (Some (get_traceback st)))], st)
      | Inl x \<Rightarrow> (Crash x, st)
      | Inr found \<Rightarrow>
          (case found of
             PyNode p \<Rightarrow>
               if isinstance (graph st) p Parameter then check_units E st p u r src_ctx
               else
                 (Raise [User (from_ctx UserTypeError src_ctx
                           [Txt ''Cannot assign a parameter to `'', PartP r, Txt ''`'']
                           (Some (get_traceback st)))], st)
           | _ \<Rightarrow>
               (Raise [User (from_ctx UserTypeError src_ctx
                         [Txt ''Cannot assign a parameter to `'', PartP r, Txt ''`'']
                         (Some (get_traceback st)))], st)))"

definition record_failed_node :: "nat \<Rightarrow> string \<Rightarrow> bob \<Rightarrow> bob" where
  "record_failed_node n nm st =
     st\<lparr>failed_nodes :=
          (failed_nodes st)(n \<mapsto> insert nm (case failed_nodes st n of None \<Rightarrow> {} | Some s \<Rightarrow> s))\<rparr>"


section \<open>Physical literals\<close>

definition get_unit_from_ctx :: "env \<Rightarrow> bob \<Rightarrow> ctx \<Rightarrow> string \<Rightarrow> UnitType outcome" where
  "get_unit_from_ctx E st c unit_str =
     (case P_Unit E unit_str of
        Some u \<Rightarrow> Return u
      | None \<Rightarrow>
          Raise [User (from_ctx UserUnknownUnitError c
                   [Txt ''Unknown unit `'', Txt unit_str, Txt ''`''] (Some (get_traceback st)))])"

definition number_value :: "number \<Rightarrow> real" where
  "number_value n = (case n of HexNumber h \<Rightarrow> of_nat h | FloatNumber x \<Rightarrow> x)"

text \<open>\<open>float(text)\<close> does not read a \<open>0x\<close> literal.\<close>

definition float_of :: "number \<Rightarrow> py_exc + real" where
  "float_of n = (case n of HexNumber h \<Rightarrow> Inl (ValueError [Txt ''could not convert string to float'']) | FloatNumber x \<Rightarrow> Inr x)"

definition visitQuantity :: "env \<Rightarrow> bob \<Rightarrow> quantity_ctx \<Rightarrow> Quantity outcome" where
  "visitQuantity E st q =
     (let v = number_value (q_NUMBER q); v1 = (if q_MINUS q then - v else v) in
      case q_name q of
        Some unit_str \<Rightarrow>
          (case get_unit_from_ctx E st (Name (q_ctx q)) unit_str of
             Return u \<Rightarrow> Return (Quantity v1 u)
           | Raise es \<Rightarrow> Raise es
           | Crash x \<Rightarrow> Crash x)
      | None \<Rightarrow> Return (Quantity v1 dimensionless))"

definition tol_divider :: "tol_suffix \<Rightarrow> real option" where
  "tol_divider sfx =
     (case sfx of
        PERCENT \<Rightarrow> Some 100
      | TolName nm \<Rightarrow> if nm = ''ppm'' then Some 1000000 else None
      | NoSuffix \<Rightarrow> None)"

definition absolute_tolerance ::
  "env \<Rightarrow> bob \<Rightarrow> Quantity \<Rightarrow> tolerance_ctx \<Rightarrow> real \<Rightarrow> Quantity outcome" where
  "absolute_tolerance E st nominal_qty tol tol_num =
     (case t_suffix tol of
        TolName nm \<Rightarrow>
          (case get_unit_from_ctx E st (Name (t_ctx tol)) nm of
             Return u \<Rightarrow> Return (Quantity tol_num u)
           | Raise es \<Rightarrow> Raise es
           | Crash x \<Rightarrow> Crash x)
      | _ \<Rightarrow>
          if unitless E (units nominal_qty) then Return (Quantity tol_num dimensionless)
          else Return (Quantity tol_num (units nominal_qty)))"

definition visitBilateral_quantity ::
  "env \<Rightarrow> bob \<Rightarrow> quantity_ctx \<Rightarrow> tolerance_ctx \<Rightarrow> Quantity_Interval outcome" where
  "visitBilateral_quantity E st q tol =
     (case visitQuantity E st q of
        Raise es \<Rightarrow> Raise es
      | Crash x \<Rightarrow> Crash x
      | Return nominal_qty \<Rightarrow>
          (case float_of (t_NUMBER tol) of
             Inl x \<Rightarrow> Crash x
           | Inr tol_num \<Rightarrow>
               (case tol_divider (t_suffix tol) of
                  Some divider \<Rightarrow>
                    if magnitude nominal_qty = 0 then
                      Raise [User (from_ctx UserException (t_ctx tol)
                        [Txt ''Can't calculate tolerance percentage of a nominal value of zero'']
                        (Some (get_traceback st)))]
                    else Return (Range_from_center_rel nominal_qty (tol_num / divider))
                | None \<Rightarrow>
                    (case absolute_tolerance E st nominal_qty tol tol_num of
                       Raise es \<Rightarrow> Raise es
                     | Crash x \<Rightarrow> Crash x
                     | Return tol_qty \<Rightarrow>
                         (let nominal1 =
                                (if unitless E (units nominal_qty) then
                                   Quantity (magnitude nominal_qty)
                                     (unit_mul E (units nominal_qty) (units tol_qty))
                                 else nominal_qty)
                          in if \<not> is_compatible_with E (units nominal1) (units tol_qty) then
                               Raise [User
                                 \<lparr>d_class = UserTypeError,
                                  d_origin = (case t_suffix tol of
                                                TolName nm \<Rightarrow> Some (Name (t_ctx tol))
                                              | _ \<Rightarrow> None),
                                  d_message =
                                    [Txt ''Tolerance unit ('', UnitP (units tol_qty),
                                     Txt '') is not dimensionally compatible with nominal unit ('',
                                     UnitP (units nominal1), Txt '')''],
                                  d_traceback = Some (get_traceback st)\<rparr>]
                             else Return (Range_from_center nominal1 tol_qty))))))"

definition visitBound_quantity ::
  "env \<Rightarrow> bob \<Rightarrow> ctx \<Rightarrow> quantity_ctx \<Rightarrow> quantity_ctx \<Rightarrow> Quantity_Interval outcome" where
  "visitBound_quantity E st c q1 q2 =
     (case visitQuantity E st q1 of
        Raise es \<Rightarrow> Raise es
      | Crash x \<Rightarrow> Crash x
      | Return start \<Rightarrow>
          (case visitQuantity E st q2 of
             Raise es \<Rightarrow> Raise es
           | Crash x \<Rightarrow> Crash x
           | Return end_q \<Rightarrow>
               if unitless E (units start) \<and> \<not> unitless E (units end_q) then
                 Return (Range (Quantity (magnitude start) (unit_mul E (units start) (units end_q)))
                           end_q)
               else if \<not> unitless E (units start) \<and> unitless E (units end_q) then
                 Return (Range start
                           (Quantity (magnitude end_q) (unit_mul E (units end_q) (units start))))
               else if \<not> is_compatible_with E (units start) (units end_q) then
                 Raise [User (from_ctx UserTypeError c
                   [Txt ''Tolerance unit ('', UnitP (units end_q),
                    Txt '') is not dimensionally compatible with nominal unit ('',
                    UnitP (units start), Txt '')''] (Some (get_traceback st)))]
               else Return (Range start end_q)))"

fun visitLiteral_physical :: "env \<Rightarrow> bob \<Rightarrow> literal_physical \<Rightarrow> Quantity_Interval outcome" where
  "visitLiteral_physical E st (quantity q) =
     (case visitQuantity E st q of
        Return qty \<Rightarrow> Return (Single qty)
      | Raise es \<Rightarrow> Raise es
      | Crash x \<Rightarrow> Crash x)"
| "visitLiteral_physical E st (bilateral_quantity c q tol) = visitBilateral_quantity E st q tol"
| "visitLiteral_physical E st (bound_quantity c q1 q2) = visitBound_quantity E st c q1 q2"


section \<open>Merging the parameter assignments\<close>

definition partition_as_list :: "('a \<Rightarrow> bool) \<Rightarrow> 'a list \<Rightarrow> 'a list \<times> 'a list" where
  "partition_as_list f xs = (filter (\<lambda>x. \<not> f x) xs, filter f xs)"

definition group_add :: "'k \<Rightarrow> 'a \<Rightarrow> ('k \<times> 'a list) list \<Rightarrow> ('k \<times> 'a list) list" where
  "group_add k x groups =
     (if k \<in> fst ` set groups then map (\<lambda>(k1, xs). if k1 = k then (k1, xs @ [x]) else (k1, xs)) groups
      else groups @ [(k, [x])])"

definition groupby :: "('a \<Rightarrow> 'k) \<Rightarrow> 'a list \<Rightarrow> ('k \<times> 'a list) list" where
  "groupby f xs = foldl (\<lambda>groups x. group_add (f x) x groups) [] xs"

definition pairwise :: "'a list \<Rightarrow> ('a \<times> 'a) list" where
  "pairwise xs = zip xs (tl xs)"

definition root_after_external :: "ParameterDefinition list \<Rightarrow> bool" where
  "root_after_external definitions =
     ((False, True) \<in> set (pairwise (map is_root_assignment definitions)))"

definition pop_param :: "nat \<Rightarrow> bob \<Rightarrow> bob" where
  "pop_param p st = st\<lparr>param_assignments := filter (\<lambda>(k, v). k \<noteq> p) (param_assignments st)\<rparr>"

definition append_assignment :: "nat \<Rightarrow> ParameterDefinition \<Rightarrow> bob \<Rightarrow> bob" where
  "append_assignment p a st =
     st\<lparr>param_assignments :=
          (if p \<in> fst ` set (param_assignments st) then
             map (\<lambda>(k, v). if k = p then (k, v @ [a]) else (k, v)) (param_assignments st)
           else param_assignments st @ [(p, [a])])\<rparr>"

text \<open>
  The runtime's constraints on a parameter. A subset or superset constraint fails with a
  unit incompatibility when the units of the value do not fit the parameter's.
\<close>

definition add_constraint :: "nat \<Rightarrow> constraint \<Rightarrow> graph \<Rightarrow> graph" where
  "add_constraint p c g = g(p := (g p)\<lparr>n_constraints := n_constraints (g p) @ [c]\<rparr>)"

definition alias_is :: "nat \<Rightarrow> Quantity_Interval \<Rightarrow> graph \<Rightarrow> graph" where
  "alias_is p v g = add_constraint p (Is v) g"

definition constrain_subset :: "env \<Rightarrow> nat \<Rightarrow> Quantity_Interval \<Rightarrow> graph \<Rightarrow> message + graph" where
  "constrain_subset E p v g =
     (if is_compatible_with E (n_units (g p)) (get_units v) then Inr (add_constraint p (IsSubset v) g)
      else Inl [UnitP (n_units (g p)), Txt '' is not compatible with '', UnitP (get_units v)])"

definition constrain_superset :: "env \<Rightarrow> nat \<Rightarrow> Quantity_Interval \<Rightarrow> graph \<Rightarrow> message + graph" where
  "constrain_superset E p v g =
     (if is_compatible_with E (n_units (g p)) (get_units v) then
        Inr (add_constraint p (IsSuperset v) g)
      else Inl [UnitP (n_units (g p)), Txt '' is not compatible with '', UnitP (get_units v)])"

text \<open>The parameters that have only declarations: popped and reported, demoted.\<close>

fun report_undefined :: "nat list \<Rightarrow> bob \<Rightarrow> unit result" where
  "report_undefined [] st = (Return (), st)"
| "report_undefined (p # ps) st =
     (case map_of (param_assignments st) p of
        None \<Rightarrow> (Crash (ValueError [Txt ''KeyError'']), st)
      | Some [] \<Rightarrow> (Crash (ValueError [Txt ''last() of an empty iterable'']), pop_param p st)
      | Some (a # as) \<Rightarrow>
          report_undefined ps
            (downgrade
               (from_ctx UserActionWithoutEffectError (pd_ctx (last (a # as)))
                  [Txt ''Attribute `'', NodeP p, Txt ''` declared but never assigned.'']
                  (Some (pd_traceback (last (a # as)))))
               (pop_param p st)))"

text \<open>
  One parameter of a node: what is collected (a diagnostic or nothing) and whether the
  parameter joins the node's gospel list.
\<close>

definition merge_param :: "env \<Rightarrow> bool \<Rightarrow> nat \<Rightarrow> bob \<Rightarrow> (exn list \<times> bool) result" where
  "merge_param E is_part_module p st =
     (case map_of (param_assignments st) p of
        None \<Rightarrow> (Crash (ValueError [Txt ''KeyError'']), st)
      | Some assignments \<Rightarrow>
          (let st1 = pop_param p st;
               definitions = filter is_definition assignments;
               non_root_definitions = fst (partition_as_list is_root_assignment definitions);
               root_definitions = snd (partition_as_list is_root_assignment definitions)
           in if definitions = [] then (Crash AssertionError, st1)
              else if root_after_external definitions then (Crash AssertionError, st1)
              else if is_part_module \<and> non_root_definitions \<noteq> [] then
                (Return
                   ([User (from_ctx UserNotImplementedError (pd_ctx (last non_root_definitions))
                      [Txt ''You can't assign to a `component` with a specific part number outside of its definition'']
                      (Some (pd_traceback (last non_root_definitions))))], False), st1)
              else if is_part_module \<and> root_definitions \<noteq> [] then
                (case pd_value (last root_definitions) of
                   None \<Rightarrow> (Crash AssertionError, st1)
                 | Some v \<Rightarrow>
                     (Return ([], True),
                      st1\<lparr>graph := add_trait p does_not_require_picker_check
                                     (alias_is p v (graph st1))\<rparr>))
              else if \<not> is_part_module then
                (case pd_value (last definitions) of
                   None \<Rightarrow> (Crash AssertionError, st1)
                 | Some v \<Rightarrow>
                     (case constrain_subset E p v (graph st1) of
                        Inl m \<Rightarrow>
                          (Return
                             ([User (from_ctx UserTypeError (pd_ctx (last definitions)) m
                                       (Some (pd_traceback (last definitions))))], False), st1)
                      | Inr g \<Rightarrow> (Return ([], False), st1\<lparr>graph := g\<rparr>)))
              else (Return ([], False), st1)))"

fun merge_params ::
  "env \<Rightarrow> bool \<Rightarrow> nat list \<Rightarrow> exn list \<Rightarrow> nat list \<Rightarrow> bob \<Rightarrow> (exn list \<times> nat list) result" where
  "merge_params E is_part_module [] errs gospel_params st = (Return (errs, gospel_params), st)"
| "merge_params E is_part_module (p # ps) errs gospel_params st =
     (case merge_param E is_part_module p st of
        (Return (es, gospel), st1) \<Rightarrow>
          merge_params E is_part_module ps (errs @ es)
            (if gospel then gospel_params @ [p] else gospel_params) st1
      | (Raise es, st1) \<Rightarrow> (Raise es, st1)
      | (Crash x, st1) \<Rightarrow> (Crash x, st1))"

definition is_part_module :: "graph \<Rightarrow> nat \<Rightarrow> bool" where
  "is_part_module g assignee_node =
     (isinstance g assignee_node Module \<and>
      (has_trait g assignee_node is_pickable_by_supplier_id \<or>
       has_trait g assignee_node is_pickable_by_part_number))"

definition gospel_diag :: "nat \<Rightarrow> nat list \<Rightarrow> diag" where
  "gospel_diag assignee_node gospel_params =
     plain_exception ParamAssignmentIsGospel
       [Txt ''`component` `'', NodeP assignee_node,
        Txt ''` is completely specified by a part number, so these params are treated as its exact specification:'',
        NodesP gospel_params]"

fun merge_nodes :: "env \<Rightarrow> (nat \<times> nat list) list \<Rightarrow> exn list \<Rightarrow> bob \<Rightarrow> exn list result" where
  "merge_nodes E [] errs st = (Return errs, st)"
| "merge_nodes E ((assignee_node, assigned_params) # groups) errs st =
     (case merge_params E (is_part_module (graph st) assignee_node) assigned_params errs [] st of
        (Return (errs1, gospel_params), st1) \<Rightarrow>
          merge_nodes E groups errs1
            (if gospel_params \<noteq> [] then downgrade (gospel_diag assignee_node gospel_params) st1
             else st1)
      | (Raise es, st1) \<Rightarrow> (Raise es, st1)
      | (Crash x, st1) \<Rightarrow> (Crash x, st1))"

definition get_parent_force :: "graph \<Rightarrow> nat \<Rightarrow> nat" where
  "get_parent_force g p = (case n_parent (g p) of Some (parent, nm) \<Rightarrow> parent | None \<Rightarrow> p)"

definition merge_parameter_assignments :: "env \<Rightarrow> bob \<Rightarrow> unit result" where
  "merge_parameter_assignments E st =
     (let params_without_definitions =
            fst (partition_as_list (\<lambda>p. \<exists>a \<in> set (the (map_of (param_assignments st) p)). is_definition a)
                   (map fst (param_assignments st)));
          params_with_definitions =
            snd (partition_as_list (\<lambda>p. \<exists>a \<in> set (the (map_of (param_assignments st) p)). is_definition a)
                   (map fst (param_assignments st)))
      in and_then (report_undefined params_without_definitions st)
           (\<lambda>u st1.
              if \<exists>p \<in> set params_with_definitions. n_parent (graph st1 p) = None then
                (Crash NodeException, st1)
              else
                and_then
                  (merge_nodes E (groupby (get_parent_force (graph st1)) params_with_definitions) [] st1)
                  (\<lambda>errs st2. if errs = [] then (Return (), st2) else (Raise errs, st2))))"


section \<open>Instantiation and the inheritance chain\<close>

definition L_Module :: pyclass where
  "L_Module = NativeClass ''Module'' Module"

definition L_ModuleInterface :: pyclass where
  "L_ModuleInterface = NativeClass ''ModuleInterface'' ModuleInterface"

text \<open>
  The loop of \<open>_new_node\<close> over the promised supers: a class is made for every super
  that has none yet, on top of the class of the super before it.
\<close>

fun synthesize :: "blockdef list \<Rightarrow> pyclass \<Rightarrow> bob \<Rightarrow> pyclass \<times> bob" where
  "synthesize [] super_class st = (super_class, st)"
| "synthesize (super_ctx # rest) super_class st =
     (case python_classes st (bctx super_ctx) of
        Some known \<Rightarrow> synthesize rest known st
      | None \<Rightarrow>
          synthesize rest (AtoClass (next_class st) (bname super_ctx) super_class (bctx super_ctx))
            (st\<lparr>python_classes :=
                  (python_classes st)(bctx super_ctx \<mapsto>
                     AtoClass (next_class st) (bname super_ctx) super_class (bctx super_ctx)),
                next_class := Suc (next_class st)\<rparr>))"

definition default_base :: "blocktype \<Rightarrow> pyclass" where
  "default_base t = (case t of INTERFACE \<Rightarrow> L_ModuleInterface | COMPONENT \<Rightarrow> L_Module | MODULE \<Rightarrow> L_Module)"

text \<open>
  \<open>_new_node\<close>; the first argument bounds the depth of the recursion, which Python
  ends with a \<open>RecursionError\<close>.
\<close>

fun new_node ::
  "env \<Rightarrow> nat \<Rightarrow> item \<Rightarrow> blockdef list \<Rightarrow> bob \<Rightarrow> (nat \<times> blockdef list) result" where
  "new_node E fuel (Class cls) promised_supers st =
     (case synthesize promised_supers cls st of
        (super_class, st1) \<Rightarrow>
          (case instantiate super_class dimensionless st1 of
             (n, st2) \<Rightarrow> (Return (n, promised_supers), st2)))"
| "new_node E 0 (Blockdef b) promised_supers st = (Crash RecursionError, st)"
| "new_node E (Suc fuel) (Blockdef b) promised_supers st =
     (case bsuper b of
        Some super_ref \<Rightarrow>
          (case get_referenced_class E (AtBlockdef b) super_ref st of
             (Return base_class, st1) \<Rightarrow> new_node E fuel base_class (b # promised_supers) st1
           | (Raise es, st1) \<Rightarrow> (Raise es, st1)
           | (Crash x, st1) \<Rightarrow> (Crash x, st1))
      | None \<Rightarrow> new_node E fuel (Class (default_base (btype b))) (b # promised_supers) st)"
| "new_node E fuel (Placeholder ph) promised_supers st =
     (Crash (ValueError [Txt ''Unknown item type'']), st)"

fun run_supers :: "(blockdef \<Rightarrow> bob \<Rightarrow> unit result) \<Rightarrow> blockdef list \<Rightarrow> bob \<Rightarrow> unit result" where
  "run_supers visitBlock [] st = (Return (), st)"
| "run_supers visitBlock (super_ctx # rest) st =
     and_then (enter_traceback (Name (bctx super_ctx)) (visitBlock super_ctx) st)
       (\<lambda>u st1. run_supers visitBlock rest st1)"

definition shim :: "item \<Rightarrow> nat \<Rightarrow> bob \<Rightarrow> bob" where
  "shim node_type n st =
     (case node_type of
        Blockdef b \<Rightarrow>
          if (btype b = COMPONENT \<or> btype b = MODULE) \<and> \<not> has_trait (graph st) n has_ato_cmp_attrs
          then st\<lparr>graph := add_trait n has_ato_cmp_attrs (graph st)\<rparr>
          else st
      | _ \<Rightarrow> st)"

text \<open>
  \<open>_init_node\<close> is a context manager: up to its \<open>yield\<close> it makes the hollow instance;
  then the body of the \<open>with\<close> statement runs; on its normal end the instance is
  pushed and the bodies of the promised supers are visited.
\<close>

definition init_node ::
  "env \<Rightarrow> nat \<Rightarrow> (blockdef \<Rightarrow> bob \<Rightarrow> unit result) \<Rightarrow> item \<Rightarrow> (nat \<Rightarrow> bob \<Rightarrow> unit result)
     \<Rightarrow> bob \<Rightarrow> nat result" where
  "init_node E fuel visitBlock node_type with_body st =
     and_then (new_node E fuel node_type [] st)
       (\<lambda>created st1.
          and_then (with_body (fst created) (shim node_type (fst created) st1))
            (\<lambda>u st2.
               and_then (enter_node (fst created) (run_supers visitBlock (snd created)) st2)
                 (\<lambda>u st3. (Return (fst created), st3))))"

section \<open>Statements\<close>

definition declaration_domain_to_unit :: "(string \<times> UnitType) list" where
  "declaration_domain_to_unit =
     [(''dimensionless'', dimensionless), (''resistance'', ''ohm''), (''capacitance'', ''farad''),
      (''inductance'', ''henry''), (''voltage'', ''volt''), (''current'', ''ampere''),
      (''power'', ''watt''), (''frequency'', ''hertz'')]"

definition to_type_ref :: "FieldRef \<Rightarrow> TypeRef option" where
  "to_type_ref r = (if \<forall>part \<in> set r. rp_key part = None then Some (map rp_name r) else None)"

definition from_type_ref :: "TypeRef \<Rightarrow> FieldRef" where
  "from_type_ref r = map (\<lambda>nm. ReferencePartType nm None) r"

definition in_assignments :: "nat \<Rightarrow> bob \<Rightarrow> bool" where
  "in_assignments p st = (p \<in> fst ` set (param_assignments st))"

definition handleParameterDeclaration ::
  "env \<Rightarrow> TypeRef \<Rightarrow> UnitType \<Rightarrow> ctx \<Rightarrow> bob \<Rightarrow> unit list result" where
  "handleParameterDeclaration E r u c st =
     (if r = [] then (Crash IndexError, st)
      else
        (case current_node st of
           Inl x \<Rightarrow> (Crash x, st)
         | Inr cur \<Rightarrow>
             and_then (ensure_param E (PyNode cur) (last (from_type_ref r)) u c st)
               (\<lambda>param st1.
                  if in_assignments param st1 then
                    (Return [],
                     downgrade
                       (from_ctx UserKeyError c
                          (if \<exists>a \<in> set (the (map_of (param_assignments st1) param)). is_definition a
                           then [Txt ''Ignoring declaration of `'', PartP (last (from_type_ref r)),
                                 Txt ''` because it's already defined'']
                           else [Txt ''Ignoring redeclaration of `'', PartP (last (from_type_ref r)),
                                 Txt ''`''])
                          (Some (get_traceback st1))) st1)
                  else
                    (Return [],
                     append_assignment param
                       \<lparr>pd_ctx = c, pd_traceback = get_traceback st1, pd_ref = from_type_ref r,
                        pd_value = None\<rparr> st1))))"

definition try_get_unit_from_type_info :: "env \<Rightarrow> bob \<Rightarrow> decl_ctx \<Rightarrow> UnitType option outcome" where
  "try_get_unit_from_type_info E st d =
     (case dec_unit d of
        None \<Rightarrow> Return None
      | Some unit_text \<Rightarrow>
          (case map_of declaration_domain_to_unit unit_text of
             Some u \<Rightarrow> Return (Some u)
           | None \<Rightarrow>
               (case get_unit_from_ctx E st (Child (dec_ctx d) 0) unit_text of
                  Return u \<Rightarrow> Return (Some u)
                | Raise es \<Rightarrow> Raise es
                | Crash x \<Rightarrow> Crash x)))"

definition visitDeclaration_stmt :: "env \<Rightarrow> decl_ctx \<Rightarrow> bob \<Rightarrow> unit list result" where
  "visitDeclaration_stmt E d st =
     (if length (dec_ref d) > 1 then
        (Raise [User (from_ctx UserSyntaxError (dec_ctx d)
                  [Txt ''Can't declare fields in a nested object `'', RefP (dec_ref d), Txt ''`'']
                  (Some (get_traceback st)))], st)
      else
        (case to_type_ref (dec_ref d) of
           None \<Rightarrow>
             (Raise [User (from_ctx UserSyntaxError (dec_ctx d)
                       [Txt ''Can't declare keyed attributes `'', RefP (dec_ref d), Txt ''`'']
                       (Some (get_traceback st)))], st)
         | Some type_ref \<Rightarrow>
             (case try_get_unit_from_type_info E st d of
                Raise es \<Rightarrow> (Raise es, st)
              | Crash x \<Rightarrow> (Crash x, st)
              | Return None \<Rightarrow> (Crash AssertionError, st)
              | Return (Some u) \<Rightarrow> handleParameterDeclaration E type_ref u (dec_ctx d) st)))"

text \<open>The \<open>new\<close> branch of an assignment, from the \<open>try\<close> on.\<close>

definition attach_new :: "ctx \<Rightarrow> ReferencePartType \<Rightarrow> nat \<Rightarrow> bob \<Rightarrow> unit result" where
  "attach_new c assigned_name new st =
     (case current_node st of
        Inl x \<Rightarrow> (Crash x, st)
      | Inr cur \<Rightarrow>
          (case add_child cur (rp_name assigned_name) new (graph st) of
             Inl x \<Rightarrow>
               (Raise [User (from_ctx UserAlreadyExistsError c
                         [Txt ''Field `'', PartP assigned_name, Txt ''` already exists'']
                         (Some (get_traceback st)))], st)
           | Inr g \<Rightarrow> (Return (), st\<lparr>graph := add_trait new (from_dsl c) g\<rparr>)))"

definition on_exception :: "(bob \<Rightarrow> bob) \<Rightarrow> 'a result \<Rightarrow> 'a result" where
  "on_exception handler m =
     (case m of
        (Return a, st) \<Rightarrow> (Return a, st)
      | (Raise es, st) \<Rightarrow> (Raise es, handler st)
      | (Crash x, st) \<Rightarrow> (Crash x, handler st))"

definition record_failed_current :: "string \<Rightarrow> bob \<Rightarrow> bob" where
  "record_failed_current nm st =
     (case current_node st of Inl x \<Rightarrow> st | Inr cur \<Rightarrow> record_failed_node cur nm st)"

definition assign_new ::
  "env \<Rightarrow> nat \<Rightarrow> (blockdef \<Rightarrow> bob \<Rightarrow> unit result) \<Rightarrow> ctx \<Rightarrow> FieldRef \<Rightarrow> TypeRef \<Rightarrow> bob
     \<Rightarrow> unit list result" where
  "assign_new E fuel visitBlock c assigned_ref r st =
     (if length assigned_ref > 1 then
        (Raise [User (from_ctx UserSyntaxError c
                  [Txt ''Can't declare fields in a nested object `'', RefP assigned_ref, Txt ''`'']
                  (Some (get_traceback st)))], st)
      else if rp_key (last assigned_ref) \<noteq> None then
        (Raise [User (from_ctx UserSyntaxError c
                  [Txt ''Can't use keys with `new` statements `'', RefP assigned_ref, Txt ''`'']
                  (Some (get_traceback st)))], st)
      else
        on_exception (record_failed_current (rp_name (last assigned_ref)))
          (and_then
             (enter_traceback (New_stmt c)
                (\<lambda>st1.
                   and_then (get_referenced_class E (AtCtx c) r st1)
                     (\<lambda>cls st2.
                        init_node E fuel visitBlock cls (attach_new c (last assigned_ref)) st2))
                st)
             (\<lambda>n st3. (Return [], st3))))"

definition assign_value ::
  "env \<Rightarrow> ctx \<Rightarrow> ref_or_decl \<Rightarrow> FieldRef \<Rightarrow> pyval \<Rightarrow> literal_physical \<Rightarrow> bob \<Rightarrow> unit list result" where
  "assign_value E c rd assigned_ref target lp st =
     (case visitLiteral_physical E st lp of
        Raise es \<Rightarrow> (Raise es, st)
      | Crash x \<Rightarrow> (Crash x, st)
      | Return v \<Rightarrow>
          and_then
            (case rd of
               declaration_stmt d \<Rightarrow> visitDeclaration_stmt E d st
             | field_reference r \<Rightarrow> (Return [], st))
            (\<lambda>u st1.
               and_then (ensure_param E target (last assigned_ref) (get_units v) c st1)
                 (\<lambda>param st2.
                    (Return [],
                     append_assignment param
                       \<lparr>pd_ctx = c, pd_traceback = get_traceback st2, pd_ref = assigned_ref,
                        pd_value = Some v\<rparr> st2))))"

definition assigned_reference :: "ref_or_decl \<Rightarrow> FieldRef" where
  "assigned_reference rd = (case rd of field_reference r \<Rightarrow> r | declaration_stmt d \<Rightarrow> dec_ref d)"

text \<open>The node an assignment resolves before it looks at the right-hand side.\<close>

definition assign_target :: "bob \<Rightarrow> ctx \<Rightarrow> ref_or_decl \<Rightarrow> pyval outcome" where
  "assign_target st c rd =
     (if assigned_reference rd = [] then Crash IndexError
      else get_referenced_node st (stem (assigned_reference rd)) c)"

definition visitAssign_stmt ::
  "env \<Rightarrow> nat \<Rightarrow> (blockdef \<Rightarrow> bob \<Rightarrow> unit result) \<Rightarrow> ctx \<Rightarrow> ref_or_decl \<Rightarrow> assignable \<Rightarrow> bob
     \<Rightarrow> unit list result" where
  "visitAssign_stmt E fuel visitBlock c rd a st =
     (case assign_target st c rd of
        Raise es \<Rightarrow> (Raise es, st)
      | Crash x \<Rightarrow> (Crash x, st)
      | Return target \<Rightarrow>
          (case a of
             new_stmt r \<Rightarrow> assign_new E fuel visitBlock c (assigned_reference rd) r st
           | literal_physical lp \<Rightarrow> assign_value E c rd (assigned_reference rd) target lp st))"

text \<open>The node a cumulative or set assignment resolves as its target.\<close>

definition cum_assign_target :: "bob \<Rightarrow> ctx \<Rightarrow> ref_or_decl \<Rightarrow> pyval outcome" where
  "cum_assign_target st c rd =
     (case rd of
        declaration_stmt d \<Rightarrow> Crash (AttributeError ''pin_reference_end'' None (ObjType ''NoneType''))
      | field_reference assignee_ref \<Rightarrow> get_referenced_node st assignee_ref c)"

definition cum_assignee :: "bob \<Rightarrow> ctx \<Rightarrow> ref_or_decl \<Rightarrow> nat outcome" where
  "cum_assignee st c rd =
     (case cum_assign_target st c rd of
        Raise es \<Rightarrow> Raise es
      | Crash x \<Rightarrow> Crash x
      | Return target \<Rightarrow>
          if assigned_reference rd = [] then Crash IndexError
          else get_param st target (last (assigned_reference rd)) c)"

definition visitCum_assign_stmt ::
  "env \<Rightarrow> ctx \<Rightarrow> ref_or_decl \<Rightarrow> cum_operator \<Rightarrow> literal_physical \<Rightarrow> bob \<Rightarrow> unit list result" where
  "visitCum_assign_stmt E c rd oper lp st =
     (case cum_assignee st c rd of
        Raise es \<Rightarrow> (Raise es, st)
      | Crash x \<Rightarrow> (Crash x, st)
      | Return assignee \<Rightarrow>
          (case visitLiteral_physical E st lp of
             Raise es \<Rightarrow> (Raise es, st)
           | Crash x \<Rightarrow> (Crash x, st)
           | Return v \<Rightarrow>
               (Return [],
                downgrade (plain_exception DeprecatedException [Txt ''+= or -= is deprecated.''])
                  (st\<lparr>graph := add_constraint assignee
                                  (case oper of ADD_ASSIGN \<Rightarrow> Is v | SUB_ASSIGN \<Rightarrow> IsNegated v)
                                  (graph st)\<rparr>))))"

definition visitSet_assign_stmt ::
  "env \<Rightarrow> ctx \<Rightarrow> ref_or_decl \<Rightarrow> set_operator \<Rightarrow> literal_physical \<Rightarrow> bob \<Rightarrow> unit list result" where
  "visitSet_assign_stmt E c rd oper lp st =
     (case cum_assignee st c rd of
        Raise es \<Rightarrow> (Raise es, st)
      | Crash x \<Rightarrow> (Crash x, st)
      | Return assignee \<Rightarrow>
          (case visitLiteral_physical E st lp of
             Raise es \<Rightarrow> (Raise es, st)
           | Crash x \<Rightarrow> (Crash x, st)
           | Return v \<Rightarrow>
               (case (case oper of
                        OR_ASSIGN \<Rightarrow> constrain_superset E assignee v (graph st)
                      | AND_ASSIGN \<Rightarrow> constrain_subset E assignee v (graph st)) of
                  Inl m \<Rightarrow> (Crash (UnitCompatibilityError m), st)
                | Inr g \<Rightarrow>
                    (Return [],
                     downgrade
                       (plain_exception DeprecatedException
                          [Txt ''Set assignment of `'', NodeP assignee, Txt ''` is deprecated.''])
                       (st\<lparr>graph := g\<rparr>)))))"

fun visitConnectables :: "bob \<Rightarrow> connectable list \<Rightarrow> nat list outcome" where
  "visitConnectables st [] = Return []"
| "visitConnectables st (cn # cns) =
     (case get_referenced_node st (cn_ref cn) (cn_ctx cn) of
        Raise es \<Rightarrow> Raise es
      | Crash x \<Rightarrow> Crash x
      | Return (PyNode n) \<Rightarrow>
          if isinstance (graph st) n ModuleInterface then
            (case visitConnectables st cns of
               Return ns \<Rightarrow> Return (n # ns)
             | Raise es \<Rightarrow> Raise es
             | Crash x \<Rightarrow> Crash x)
          else
            Raise [User (from_ctx UserTypeError (cn_ctx cn)
                     [Txt ''Can't connect `'', NodeP n, Txt ''` because it's not a `ModuleInterface`'']
                     (Some (get_traceback st)))]
      | Return other \<Rightarrow>
          Raise [User (from_ctx UserTypeError (cn_ctx cn)
                   [Txt ''Can't connect because it's not a `ModuleInterface`'']
                   (Some (get_traceback st)))])"

definition connect_pair :: "env \<Rightarrow> nat \<times> nat \<Rightarrow> bob \<Rightarrow> unit list result" where
  "connect_pair E ab st =
     (if connect E (graph st) (fst ab) (snd ab) = [] then
        (Return [], st\<lparr>connections := connections st @ [ab]\<rparr>)
      else (Raise (connect E (graph st) (fst ab) (snd ab)), st))"

definition visitConnect_stmt :: "env \<Rightarrow> ctx \<Rightarrow> connectable list \<Rightarrow> bob \<Rightarrow> unit list result" where
  "visitConnect_stmt E c cns st =
     (case visitConnectables st cns of
        Raise es \<Rightarrow> (Raise es, st)
      | Crash x \<Rightarrow> (Crash x, st)
      | Return ns \<Rightarrow> visit_iterable_helper (connect_pair E) (pairwise ns) [] [] st)"

definition visitBlock :: "(stmt \<Rightarrow> bob \<Rightarrow> unit list result) \<Rightarrow> blockdef \<Rightarrow> bob \<Rightarrow> unit result" where
  "visitBlock visit b st =
     (if bbody b = [] then (Crash (ValueError []), st)
      else and_then (visit_iterable_helper visit (bbody b) [] [] st) (\<lambda>rs st1. (Return (), st1)))"

text \<open>
  One statement, given the visitor for the statements of the bodies it enters. Imports
  and type definitions are the surveyor's and do nothing here.
\<close>

fun visit_stmt ::
  "env \<Rightarrow> nat \<Rightarrow> (stmt \<Rightarrow> bob \<Rightarrow> unit list result) \<Rightarrow> stmt \<Rightarrow> bob \<Rightarrow> unit list result" where
  "visit_stmt E fuel visit Pass_stmt st = (Return [], st)"
| "visit_stmt E fuel visit (Import_stmt c from_string references) st = (Return [], st)"
| "visit_stmt E fuel visit (Dep_import_stmt c raw r) st = (Return [], st)"
| "visit_stmt E fuel visit (Blockdef_stmt b) st = (Return [], st)"
| "visit_stmt E fuel visit (Declaration_stmt d) st = visitDeclaration_stmt E d st"
| "visit_stmt E fuel visit (Assign_stmt c rd a) st =
     visitAssign_stmt E fuel (visitBlock visit) c rd a st"
| "visit_stmt E fuel visit (Cum_assign_stmt c rd oper lp) st = visitCum_assign_stmt E c rd oper lp st"
| "visit_stmt E fuel visit (Set_assign_stmt c rd oper lp) st = visitSet_assign_stmt E c rd oper lp st"
| "visit_stmt E fuel visit (Connect_stmt c cns) st = visitConnect_stmt E c cns st"

text \<open>The visitor, to a bounded depth of nested bodies.\<close>

primrec visit :: "nat \<Rightarrow> env \<Rightarrow> stmt \<Rightarrow> bob \<Rightarrow> unit list result" where
  "visit 0 E s st = (Crash RecursionError, st)"
| "visit (Suc fuel) E s st = visit_stmt E fuel (visit fuel E) s st"

section \<open>Top-level builds\<close>

definition is_reset :: "bob \<Rightarrow> bool" where
  "is_reset st = (node_stack st = [] \<and> traceback_stack st = [] \<and> param_assignments st = [])"

definition finish :: "env \<Rightarrow> bob \<Rightarrow> unit result" where
  "finish E st =
     and_then (merge_parameter_assignments E st)
       (\<lambda>u st1. if is_reset st1 then (Return (), st1) else (Crash AssertionError, st1))"

definition mark_app_root :: "nat \<Rightarrow> bob \<Rightarrow> unit result" where
  "mark_app_root n st = (Return (), st\<lparr>graph := add_trait n is_app_root (graph st)\<rparr>)"

definition build_body :: "env \<Rightarrow> nat \<Rightarrow> Context \<Rightarrow> TypeRef \<Rightarrow> bob \<Rightarrow> nat result" where
  "build_body E fuel context r st =
     and_then (get_referenced_class E (AtCtx (scope_ctx context)) r st)
       (\<lambda>cls st1.
          case cls of
            Blockdef b \<Rightarrow>
              enter_traceback (Name (bctx b))
                (init_node E fuel (visitBlock (visit fuel E)) (Blockdef b) mark_app_root) st1
          | _ \<Rightarrow>
              (Raise [User (plain_exception UserNotImplementedError
                        [Txt ''Can't initialize a fabll directly like this''])], st1))"

text \<open>\<open>except* SkipPriorFailedException: raise UserException("Build failed")\<close>\<close>

definition except_skip :: "'a result \<Rightarrow> 'a result" where
  "except_skip m =
     (case m of
        (Raise es, st) \<Rightarrow>
          if SkipPriorFailedException \<in> set es then
            (Raise (User (plain_exception UserException [Txt ''Build failed''])
                    # filter (\<lambda>e. e \<noteq> SkipPriorFailedException) es), st)
          else (Raise es, st)
      | other \<Rightarrow> other)"

definition finally_finish :: "env \<Rightarrow> 'a result \<Rightarrow> 'a result" where
  "finally_finish E m =
     (case finish E (snd m) of
        (Return u, st) \<Rightarrow> (fst m, st)
      | (Raise es, st) \<Rightarrow> (Raise es, st)
      | (Crash x, st) \<Rightarrow> (Crash x, st))"

definition build :: "env \<Rightarrow> nat \<Rightarrow> Context \<Rightarrow> TypeRef \<Rightarrow> bob \<Rightarrow> nat result" where
  "build E fuel context r st =
     (if \<not> is_reset st then (Crash AssertionError, st)
      else if refs context r = None then
        (Raise [User (from_ctx UserKeyError (scope_ctx context)
                  [Txt ''No declaration of `'', TypeRefP r, Txt ''`''] None)], st)
      else finally_finish E (except_skip (build_body E fuel context r st)))"


definition build_file :: "env \<Rightarrow> nat \<Rightarrow> path \<Rightarrow> TypeRef \<Rightarrow> bob \<Rightarrow> nat result" where
  "build_file E fuel fp r st =
     and_then (index_file E (sanitise_path E fp) st)
       (\<lambda>context st1. build E fuel context r st1)"

section \<open>Reading outcomes\<close>

definition raised :: "'a outcome \<Rightarrow> exn list" where
  "raised r = (case r of Raise es \<Rightarrow> es | _ \<Rightarrow> [])"

definition returned :: "'a list outcome \<Rightarrow> 'a list" where
  "returned r = (case r of Return x \<Rightarrow> x | _ \<Rightarrow> [])"

section \<open>Example inputs\<close>

text \<open>
  A small library registry, a unit registry with \<open>ohm\<close>, \<open>kohm\<close> and \<open>volt\<close>,
  and a file system with the one file \<open>lib/parts.ato\<close>, which defines the module
  \<open>Part\<close>.
\<close>

definition part_def :: blockdef where
  "part_def = BlockdefContext (Child (File_input 7) 0) ''Part'' MODULE None [Pass_stmt]"

definition env0 :: env where
  "env0 = \<lparr>library_F = [''Resistor'' \<mapsto> FClass (NativeClass ''Resistor'' Module),
                         ''Electrical'' \<mapsto> FClass (NativeClass ''Electrical'' ModuleInterface),
                         ''Range'' \<mapsto> FClass (NativeClass ''Range'' Node),
                         ''__name__'' \<mapsto> FObject],
            shim_map = [],
            addr_from_parts = (\<lambda>p r. p),
            path_exists = (\<lambda>p. p = ''lib/parts.ato''),
            path_join = (\<lambda>p s. p @ ''/'' @ s),
            path_parent = (\<lambda>p. p),
            path_suffix = (\<lambda>p. ''.ato''),
            sanitise_path = (\<lambda>p. p),
            project_paths = [],
            library_dir = ''lib'',
            get_ast_from_file = (\<lambda>p. File_inputContext 7 [Blockdef_stmt part_def]),
            import_from_path = (\<lambda>p. None),
            P_Unit = (\<lambda>s. if s = ''ohm'' \<or> s = ''volt'' \<or> s = ''kohm'' then Some s else None),
            is_compatible_with =
              (\<lambda>a b. a = b \<or> (a = ''ohm'' \<and> b = ''kohm'') \<or> (a = ''kohm'' \<and> b = ''ohm'')),
            unitless = (\<lambda>u. u = dimensionless),
            unit_mul = (\<lambda>a b. if a = dimensionless then b else a),
            connect = (\<lambda>g a b. [])\<rparr>"

text \<open>A builder that has built nothing yet.\<close>

definition bob0 :: bob where
  "bob0 = \<lparr>scopes = Map.empty, python_classes = Map.empty, node_stack = [],
            traceback_stack = [], param_assignments = [], search_paths = [],
            failed_nodes = Map.empty, graph = (\<lambda>n. hollow L_Module n dimensionless),
            next_node = 0, next_class = 0, connections = [], log = [], trace = []\<rparr>"

text \<open>A node whose statically declared field \<open>unnamed\<close> is a list of two nodes.\<close>

definition graph_unnamed :: graph where
  "graph_unnamed =
     (\<lambda>n. hollow L_Module n dimensionless)
       (0 := (hollow L_Module 0 dimensionless)
               \<lparr>n_attrs := [''unnamed'' \<mapsto> PyList [PyNode 1, PyNode 2]]\<rparr>)"








text \<open>A module under construction (node 0) with one parameter \<open>a\<close> (node 1).\<close>

definition bob_a :: bob where
  "bob_a = bob0\<lparr>node_stack := [0],
                 graph := (\<lambda>n. hollow L_Module n dimensionless)
                   (0 := (hollow L_Module 0 dimensionless)\<lparr>n_runtime := [''a'' \<mapsto> 1]\<rparr>,
                    1 := (hollow Parameter_class 1 ''volt'')\<lparr>n_parent := Some (0, ''a'')\<rparr>),
                 next_node := 2\<rparr>"

section \<open>Reading the pending assignments\<close>

text \<open>
  The definitions recorded for a parameter, those made through a nested path, and
  whether the merge can process the parameter (it is pending, has a definition, and
  no root definition follows an external one).
\<close>

definition definitions_of :: "bob \<Rightarrow> nat \<Rightarrow> ParameterDefinition list" where
  "definitions_of st p =
     filter is_definition (case map_of (param_assignments st) p of None \<Rightarrow> [] | Some as \<Rightarrow> as)"

definition non_root_of :: "bob \<Rightarrow> nat \<Rightarrow> ParameterDefinition list" where
  "non_root_of st p = filter (\<lambda>a. \<not> is_root_assignment a) (definitions_of st p)"

definition root_of :: "bob \<Rightarrow> nat \<Rightarrow> ParameterDefinition list" where
  "root_of st p = filter is_root_assignment (definitions_of st p)"

definition mergeable :: "bob \<Rightarrow> nat \<Rightarrow> bool" where
  "mergeable st p =
     (map_of (param_assignments st) p \<noteq> None \<and> definitions_of st p \<noteq> []
      \<and> \<not> root_after_external (definitions_of st p))"

definition outside_diag :: "ParameterDefinition \<Rightarrow> diag" where
  "outside_diag a =
     from_ctx UserNotImplementedError (pd_ctx a)
       [Txt ''You can't assign to a `component` with a specific part number outside of its definition'']
       (Some (pd_traceback a))"

definition last_value :: "ParameterDefinition list \<Rightarrow> Quantity_Interval" where
  "last_value as = the (pd_value (last as))"

definition units_diag :: "env \<Rightarrow> graph \<Rightarrow> nat \<Rightarrow> ParameterDefinition \<Rightarrow> diag" where
  "units_diag E g p a =
     from_ctx UserTypeError (pd_ctx a)
       [UnitP (n_units (g p)), Txt '' is not compatible with '', UnitP (get_units (the (pd_value a)))]
       (Some (pd_traceback a))"

text \<open>A parameter after it was aliased to a value and marked as needing no picker check.\<close>

definition made_gospel :: "node \<Rightarrow> Quantity_Interval \<Rightarrow> node" where
  "made_gospel nd v =
     nd\<lparr>n_traits := n_traits nd @ [does_not_require_picker_check],
        n_constraints := n_constraints nd @ [Is v]\<rparr>"

definition narrowed :: "node \<Rightarrow> Quantity_Interval \<Rightarrow> node" where
  "narrowed nd v = nd\<lparr>n_constraints := n_constraints nd @ [IsSubset v]\<rparr>"

definition fits :: "env \<Rightarrow> bob \<Rightarrow> nat \<Rightarrow> bool" where
  "fits E st p =
     is_compatible_with E (n_units (graph st p)) (get_units (last_value (definitions_of st p)))"

text \<open>
  How the merge reads the pending records: the node that owns a parameter, the
  parameters that have a definition and those that have none, in the order of the
  records; the owners in the order in which the merge meets them, and the parameters
  grouped under each; and the conditions under which the merge meets none of its own
  assertions (one entry per parameter, no empty entry, no root definition after an
  external one, a parent for every parameter that has a definition). Then what the merge
  makes of one parameter of a pinned or of an unpinned node: the diagnostics it
  collects and the node of the parameter afterwards.
\<close>

definition owner :: "bob \<Rightarrow> nat \<Rightarrow> nat" where
  "owner st p = get_parent_force (graph st) p"

definition defined_params :: "bob \<Rightarrow> nat list" where
  "defined_params st = filter (\<lambda>p. definitions_of st p \<noteq> []) (map fst (param_assignments st))"

definition undefined_params :: "bob \<Rightarrow> nat list" where
  "undefined_params st = filter (\<lambda>p. definitions_of st p = []) (map fst (param_assignments st))"

definition owners :: "bob \<Rightarrow> nat list" where
  "owners st = dict_fromkeys (map (owner st) (defined_params st))"

definition params_of :: "bob \<Rightarrow> nat \<Rightarrow> nat list" where
  "params_of st n = filter (\<lambda>p. owner st p = n) (defined_params st)"

definition unassigned_diag :: "bob \<Rightarrow> nat \<Rightarrow> diag" where
  "unassigned_diag st p =
     from_ctx UserActionWithoutEffectError (pd_ctx (last (the (map_of (param_assignments st) p))))
       [Txt ''Attribute `'', NodeP p, Txt ''` declared but never assigned.'']
       (Some (pd_traceback (last (the (map_of (param_assignments st) p)))))"

definition merge_ready :: "bob \<Rightarrow> bool" where
  "merge_ready st =
     (distinct (map fst (param_assignments st)) \<and>
      (\<forall>(p, as) \<in> set (param_assignments st).
         as \<noteq> [] \<and> \<not> root_after_external (filter is_definition as) \<and>
         (filter is_definition as \<noteq> [] \<longrightarrow> n_parent (graph st p) \<noteq> None)))"

definition merged_errors :: "env \<Rightarrow> bob \<Rightarrow> bool \<Rightarrow> nat \<Rightarrow> exn list" where
  "merged_errors E st pinned p =
     (if pinned then
        (if non_root_of st p \<noteq> [] then [User (outside_diag (last (non_root_of st p)))] else [])
      else
        (if fits E st p then []
         else [User (units_diag E (graph st) p (last (definitions_of st p)))]))"

definition merged_node :: "env \<Rightarrow> bob \<Rightarrow> bool \<Rightarrow> nat \<Rightarrow> node" where
  "merged_node E st pinned p =
     (if pinned then
        (if non_root_of st p = [] then made_gospel (graph st p) (last_value (root_of st p))
         else graph st p)
      else
        (if fits E st p then narrowed (graph st p) (last_value (definitions_of st p))
         else graph st p))"

definition gospel_params :: "bob \<Rightarrow> nat list \<Rightarrow> nat list" where
  "gospel_params st ps = filter (\<lambda>p. non_root_of st p = []) ps"

definition group_errors :: "env \<Rightarrow> bob \<Rightarrow> nat \<times> nat list \<Rightarrow> exn list" where
  "group_errors E st grp =
     concat (map (merged_errors E st (is_part_module (graph st) (fst grp))) (snd grp))"

definition group_gospel :: "bob \<Rightarrow> nat \<times> nat list \<Rightarrow> diag list" where
  "group_gospel st grp =
     (if is_part_module (graph st) (fst grp) \<and> gospel_params st (snd grp) \<noteq> []
      then [gospel_diag (fst grp) (gospel_params st (snd grp))] else [])"

definition merge_errors :: "env \<Rightarrow> bob \<Rightarrow> exn list" where
  "merge_errors E st = concat (map (\<lambda>n. group_errors E st (n, params_of st n)) (owners st))"

text \<open>
  A component pinned by a part number (node 0) with the parameters \<open>x\<close> (node 1),
  defined in its body by \<open>x = 100ohm\<close>, and \<open>y\<close> (node 2), defined from outside by
  \<open>r.y = 100ohm\<close>; and the same node without the pin, whose \<open>x\<close> was defined by
  \<open>x = 1volt\<close> and then \<open>x = 100ohm\<close>, and whose \<open>y\<close> is a voltage.
\<close>

definition value_100ohm :: Quantity_Interval where
  "value_100ohm = Single (Quantity 100 ''ohm'')"


definition def_x :: ParameterDefinition where
  "def_x = \<lparr>pd_ctx = Child (File_input 0) 4, pd_traceback = [Name (Child (File_input 0) 1)],
            pd_ref = [ReferencePartType ''x'' None], pd_value = Some value_100ohm\<rparr>"


definition def_y :: ParameterDefinition where
  "def_y = \<lparr>pd_ctx = Child (File_input 0) 9, pd_traceback = [Name (Child (File_input 0) 2)],
            pd_ref = [ReferencePartType ''r'' None, ReferencePartType ''y'' None],
            pd_value = Some value_100ohm\<rparr>"

definition graph_xy :: "trait list \<Rightarrow> graph" where
  "graph_xy ts =
     (\<lambda>n. hollow L_Module n dimensionless)
       (0 := (hollow L_Module 0 dimensionless)
               \<lparr>n_runtime := [''x'' \<mapsto> 1, ''y'' \<mapsto> 2], n_traits := ts\<rparr>,
        1 := (hollow Parameter_class 1 ''ohm'')\<lparr>n_parent := Some (0, ''x'')\<rparr>,
        2 := (hollow Parameter_class 2 ''volt'')\<lparr>n_parent := Some (0, ''y'')\<rparr>)"

definition bob_pinned :: bob where
  "bob_pinned = bob0\<lparr>param_assignments := [(1, [def_x]), (2, [def_y])],
                      graph := graph_xy [is_pickable_by_part_number], next_node := 3\<rparr>"


text \<open>
  The pinned component again, whose \<open>x\<close> was defined in its body by \<open>x = 100ohm\<close> and
  then from outside by \<open>r.x = 100ohm\<close>.
\<close>

definition def_x_outside :: ParameterDefinition where
  "def_x_outside = \<lparr>pd_ctx = Child (File_input 0) 8, pd_traceback = [Name (Child (File_input 0) 2)],
            pd_ref = [ReferencePartType ''r'' None, ReferencePartType ''x'' None],
            pd_value = Some value_100ohm\<rparr>"

definition bob_pinned_mixed :: bob where
  "bob_pinned_mixed = bob_pinned\<lparr>param_assignments := [(1, [def_x, def_x_outside])]\<rparr>"

text \<open>A builder that has surveyed a file with \<open>from "parts.ato" import Part\<close>.\<close>

definition bob_import :: bob where
  "bob_import =
     bob0\<lparr>scopes :=
            [File_input 0 \<mapsto>
               \<lparr>file_path = None, scope_ctx = File_input 0,
                refs = [[''Part''] \<mapsto>
                          Placeholder (ImportPlaceholder [''Part''] ''parts.ato''
                                         (Child (File_input 0) 0))]\<rparr>]\<rparr>"

section \<open>Stack discipline and the order of the bodies\<close>

definition same_stacks :: "bob \<Rightarrow> bob \<Rightarrow> bool" where
  "same_stacks st st1 =
     (node_stack st1 = node_stack st \<and> traceback_stack st1 = traceback_stack st)"










section \<open>Attribute lookup\<close>

lemma get_node_attr_container_no_key:
  "n_attrs (g node) nm = Some v \<Longrightarrow> \<not> is_Node v \<Longrightarrow>
   get_node_attr g node (ReferencePartType nm None) =
     Inl (AttributeError ''_ref'' None (ObjType (type_name v)))"
  by (simp add: get_node_attr_def)

lemma get_node_attr_dict_key:
  "n_attrs (g node) nm = Some (PyDict d) \<Longrightarrow>
   get_node_attr g node (ReferencePartType nm (Some k)) =
     (case map_of d k of
        None \<Rightarrow> Inl (AttributeError nm (Some k) (ObjNode node))
      | Some (PyNode m) \<Rightarrow>
          if isinstance g m Module then Inr (PyNode (n_most_special (g m))) else Inr (PyNode m)
      | Some v \<Rightarrow> Inr v)"
  by (simp add: get_node_attr_def split: option.splits pyval.splits)

lemma get_node_attr_list_out_of_range:
  "n_attrs (g node) nm = Some (PyList l) \<Longrightarrow> int (length l) \<le> i \<Longrightarrow>
   get_node_attr g node (ReferencePartType nm (Some (IntKey i))) =
     Inl (AttributeError nm (Some (IntKey i)) (ObjNode node))"
  by (simp add: get_node_attr_def)

lemma get_node_attr_node_with_key:
  "n_attrs (g node) nm = Some (PyNode m) \<Longrightarrow>
   get_node_attr g node (ReferencePartType nm (Some k)) =
     Inl (ValueError [Txt nm, Txt '' is not subscriptable''])"
  by (simp add: get_node_attr_def)

text \<open>
  C5. Looking up a statically declared container field without a key: the claim says
  the key-required diagnostic (a \<open>ValueError\<close> saying the field needs a key) is raised.
  On the field \<open>unnamed\<close>, a list of two nodes, looked up without a key, the code
  raises an \<open>AttributeError\<close> for \<open>_ref\<close> on the type \<open>list\<close> instead: the
  message of the intended error cannot be built.
\<close>

theorem get_node_attr_container_without_key:
  "get_node_attr graph_unnamed 0 (ReferencePartType ''unnamed'' None) =
     Inl (AttributeError ''_ref'' None (ObjType ''list''))"
  by (simp add: get_node_attr_def graph_unnamed_def hollow_def)

section \<open>Standard library imports\<close>

lemma pure_helper_no_crash:
  "\<forall>c \<in> set cs. \<forall>x. f c \<noteq> Crash x \<Longrightarrow>
   fst (visit_iterable_helper (\<lambda>r u. (f r, u)) cs errs rs ()) =
     (if errs @ concat (map (\<lambda>c. raised (f c)) cs) = []
      then Return (rs @ concat (map (\<lambda>c. returned (f c)) cs))
      else Raise (errs @ concat (map (\<lambda>c. raised (f c)) cs)))"
proof (induction cs arbitrary: errs rs)
  case Nil
  then show ?case by simp
next
  case (Cons c cs)
  then show ?case
    by (cases "f c") (auto simp add: raised_def returned_def)
qed

lemma pure_helper_Return_iff:
  "\<forall>c \<in> set cs. f c \<noteq> Raise [] \<Longrightarrow>
   (\<exists>x. fst (visit_iterable_helper (\<lambda>r u. (f r, u)) cs errs rs ()) = Return x)
     \<longleftrightarrow> errs = [] \<and> (\<forall>c \<in> set cs. \<exists>x. f c = Return x)"
proof (induction cs arbitrary: errs rs)
  case Nil
  then show ?case by simp
next
  case (Cons c cs)
  then show ?case
    by (cases "f c") auto
qed

lemma std_import_not_empty: "std_import E c r \<noteq> Raise []"
  by (simp add: std_import_def split: list.splits option.splits fattr.splits)

lemma std_import_multi:
  "length r > 1 \<Longrightarrow> std_import E c r = Raise [User (from_ctx UserKeyError c
                 [Txt ''Standard library imports must be single-name''] None)]"
  by (simp add: std_import_def)

lemma std_import_Return_iff:
  "(\<exists>x. std_import E c r = Return x) \<longleftrightarrow>
   (\<exists>nm cls. r = [nm] \<and> library_F E nm = Some (FClass cls) \<and> is_module_or_interface cls)"
  by (auto simp add: std_import_def split: list.splits option.splits fattr.splits if_splits)

text \<open>
  C10. For a standard library import (no from-path): a reference of more than one segment
  is rejected with the key error "Standard library imports must be single-name", whatever
  the registry holds; a reference resolves exactly when it is a single name that the
  registry has as a module or interface class; the statement resolves exactly when all
  its references do, and when it has a reference of more than one segment (and no
  registry attribute that is no class) it raises that key error.
\<close>

theorem std_import_single_name:
  "(length r > 1 \<longrightarrow>
      std_import E c r =
        Raise [User (from_ctx UserKeyError c
                 [Txt ''Standard library imports must be single-name''] None)])
   \<and> ((\<exists>x. std_import E c r = Return x) \<longleftrightarrow>
        (\<exists>nm cls. r = [nm] \<and> library_F E nm = Some (FClass cls) \<and> is_module_or_interface cls))
   \<and> ((\<exists>x. visitImport_stmt E c None rs = Return x) \<longleftrightarrow>
        (\<forall>r \<in> set rs. \<exists>nm cls. r = [nm] \<and> library_F E nm = Some (FClass cls)
                        \<and> is_module_or_interface cls))
   \<and> ((\<exists>r \<in> set rs. length r > 1) \<and> (\<forall>r \<in> set rs. \<forall>x. std_import E c r \<noteq> Crash x) \<longrightarrow>
        (\<exists>es. visitImport_stmt E c None rs = Raise es
            \<and> User (from_ctx UserKeyError c
                 [Txt ''Standard library imports must be single-name''] None) \<in> set es))"
proof -
  have a: "length r > 1 \<longrightarrow>
      std_import E c r =
        Raise [User (from_ctx UserKeyError c
                 [Txt ''Standard library imports must be single-name''] None)]"
    by (simp add: std_import_multi)
  have c: "(\<exists>x. visitImport_stmt E c None rs = Return x) \<longleftrightarrow>
        (\<forall>r \<in> set rs. \<exists>nm cls. r = [nm] \<and> library_F E nm = Some (FClass cls)
                        \<and> is_module_or_interface cls)"
    by (simp add: visitImport_stmt_def pure_helper_Return_iff std_import_Return_iff
        std_import_not_empty)
  have d: "(\<exists>r \<in> set rs. length r > 1) \<and> (\<forall>r \<in> set rs. \<forall>x. std_import E c r \<noteq> Crash x) \<longrightarrow>
        (\<exists>es. visitImport_stmt E c None rs = Raise es
            \<and> User (from_ctx UserKeyError c
                 [Txt ''Standard library imports must be single-name''] None) \<in> set es)"
  proof (intro impI, elim conjE bexE)
    fix r0
    assume nc: "\<forall>r \<in> set rs. \<forall>x. std_import E c r \<noteq> Crash x"
      and r0: "r0 \<in> set rs" "length r0 > 1"
    have "User (from_ctx UserKeyError c
                 [Txt ''Standard library imports must be single-name''] None)
            \<in> set (concat (map (\<lambda>r. raised (std_import E c r)) rs))"
      using r0 by (auto simp add: std_import_multi raised_def intro!: bexI [of _ r0])
    moreover from this have "concat (map (\<lambda>r. raised (std_import E c r)) rs) \<noteq> []"
      by (metis empty_iff list.set(1))
    ultimately show "\<exists>es. visitImport_stmt E c None rs = Raise es
            \<and> User (from_ctx UserKeyError c
                 [Txt ''Standard library imports must be single-name''] None) \<in> set es"
      using pure_helper_no_crash [OF nc, of "[]" "[]"]
      by (simp add: visitImport_stmt_def)
  qed
  show ?thesis using a std_import_Return_iff c d by blast
qed

theorem std_import_single_name_witness:
  "std_import env0 (Child (File_input 0) 0) [''a'', ''Resistor''] =
     Raise [User (from_ctx UserKeyError (Child (File_input 0) 0)
              [Txt ''Standard library imports must be single-name''] None)]
   \<and> (\<exists>x. visitImport_stmt env0 (Child (File_input 0) 0) None [[''Resistor''], [''Electrical'']] = Return x)
   \<and> (\<exists>es. visitImport_stmt env0 (Child (File_input 0) 0) None [[''Resistor''], [''a'', ''Resistor'']] = Raise es
         \<and> User (from_ctx UserKeyError (Child (File_input 0) 0)
              [Txt ''Standard library imports must be single-name''] None) \<in> set es)"
proof -
  have l: "length [''a'', ''Resistor''] > 1" by simp
  have ok: "\<forall>r \<in> set [[''Resistor''], [''Electrical'']].
              \<exists>nm cls. r = [nm] \<and> library_F env0 nm = Some (FClass cls) \<and> is_module_or_interface cls"
    by (simp add: env0_def is_module_or_interface_def)
  have nc: "(\<exists>r \<in> set [[''Resistor''], [''a'', ''Resistor'']]. length r > 1)
     \<and> (\<forall>r \<in> set [[''Resistor''], [''a'', ''Resistor'']]. \<forall>x.
           std_import env0 (Child (File_input 0) 0) r \<noteq> Crash x)"
    by (simp add: std_import_def env0_def is_module_or_interface_def)
  show ?thesis
    using std_import_single_name [of "[''a'', ''Resistor'']" env0 "Child (File_input 0) 0"
            "[[''Resistor''], [''Electrical'']]"]
          std_import_single_name [of "[''a'', ''Resistor'']" env0 "Child (File_input 0) 0"
            "[[''Resistor''], [''a'', ''Resistor'']]"]
          l ok nc
    by blast
qed

section \<open>Bilateral literals\<close>












section \<open>The target of cumulative and set assignments\<close>

text \<open>
  C8. The claim says a cumulative or set assignment resolves its target as the plain
  assignment of the same reference does. In a module with the parameter \<open>a\<close>: the
  plain assignment to \<open>a\<close> resolves the stem of the reference, the module itself
  (node 0), while the cumulative assignment resolves the whole reference, the parameter
  (node 1), and then finds no parameter \<open>a\<close> on it; for the undeclared \<open>b\<close> the plain
  assignment resolves the module and the cumulative assignment raises a key error.
\<close>

theorem cum_assign_target_differs:
  "assign_target bob_a (Child (File_input 0) 0) (field_reference [ReferencePartType ''a'' None])
     = Return (PyNode 0)
   \<and> cum_assign_target bob_a (Child (File_input 0) 0) (field_reference [ReferencePartType ''a'' None])
     = Return (PyNode 1)
   \<and> assign_target bob_a (Child (File_input 0) 0) (field_reference [ReferencePartType ''b'' None])
     = Return (PyNode 0)
   \<and> cum_assign_target bob_a (Child (File_input 0) 0) (field_reference [ReferencePartType ''b'' None])
     = Raise [User (from_ctx UserKeyError (Child (File_input 0) 0)
                [Txt ''No attribute `'', PartP (ReferencePartType ''b'' None), Txt ''`''] (Some []))]
   \<and> cum_assignee bob_a (Child (File_input 0) 0) (field_reference [ReferencePartType ''a'' None])
     = Raise [User (from_ctx UserNotImplementedError (Child (File_input 0) 0)
              [Txt ''Parameter `'', PartP (ReferencePartType ''a'' None),
               Txt ''` not found and forward-declared params are not yet implemented'']
              (Some []))]"
  by (simp add: assign_target_def cum_assign_target_def cum_assignee_def assigned_reference_def
      stem_def get_referenced_node_def current_node_def bob_a_def bob0_def node_attr_def
      get_node_attr_def hollow_def isinstance_def Parameter_class_def L_Module_def is_failed_def
      get_traceback_def dict_fromkeys_def get_param_def)

section \<open>The merge of the parameter assignments\<close>

lemma map_of_pop_param:
  "map_of (param_assignments (pop_param p st)) q =
     (if q = p then None else map_of (param_assignments st) q)"
proof -
  have "map_of (filter (\<lambda>(k, v). k \<noteq> p) xs) q = (if q = p then None else map_of xs q)" for xs :: "(nat \<times> ParameterDefinition list) list"
    by (induction xs) auto
  then show ?thesis by (simp add: pop_param_def)
qed

lemma definitions_of_pop_param:
  "q \<noteq> p \<Longrightarrow> definitions_of (pop_param p st) q = definitions_of st q"
  by (simp add: definitions_of_def map_of_pop_param)

lemma pop_param_fields [simp]:
  "graph (pop_param p st) = graph st" "log (pop_param p st) = log st"
  "node_stack (pop_param p st) = node_stack st"
  "traceback_stack (pop_param p st) = traceback_stack st"
  by (simp_all add: pop_param_def)

lemma last_definition_value:
  "as \<noteq> [] \<Longrightarrow> \<forall>a \<in> set as. is_definition a \<Longrightarrow> pd_value (last as) = Some (last_value as)"
  by (auto simp add: last_value_def is_definition_def is_declaration_def dest: last_in_set)

lemma merge_param_pinned_non_root:
  assumes "mergeable st p" and "non_root_of st p \<noteq> []"
  shows "merge_param E True p st =
           (Return ([User (outside_diag (last (non_root_of st p)))], False), pop_param p st)"
  using assms
  by (auto simp add: merge_param_def mergeable_def definitions_of_def non_root_of_def
      partition_as_list_def outside_diag_def Let_def)

lemma merge_param_pinned_root:
  assumes "mergeable st p" and "non_root_of st p = []"
  shows "merge_param E True p st =
           (Return ([], True),
            (pop_param p st)\<lparr>graph := add_trait p does_not_require_picker_check
                                       (alias_is p (last_value (root_of st p)) (graph st))\<rparr>)"
proof -
  from assms obtain as where as: "map_of (param_assignments st) p = Some as"
    by (auto simp add: mergeable_def)
  have d: "filter is_definition as \<noteq> []" "\<not> root_after_external (filter is_definition as)"
    using assms as by (simp_all add: mergeable_def definitions_of_def)
  have nr: "filter (\<lambda>a. \<not> is_root_assignment a) (filter is_definition as) = []"
    using assms as by (simp add: non_root_of_def definitions_of_def)
  have r: "filter is_root_assignment (filter is_definition as) = filter is_definition as"
    using nr by (auto simp add: filter_empty_conv intro!: filter_cong)
  have v: "pd_value (last (filter is_definition as)) = Some (last_value (filter is_definition as))"
    using d(1) by (intro last_definition_value) auto
  have ro: "root_of st p = filter is_definition as"
    using as r by (simp add: root_of_def definitions_of_def)
  show ?thesis
    using as d nr r v ro
    by (simp add: merge_param_def partition_as_list_def Let_def)
qed

lemma merge_param_unpinned:
  assumes "mergeable st p"
  shows "merge_param E False p st =
           (if is_compatible_with E (n_units (graph st p)) (get_units (last_value (definitions_of st p)))
            then (Return ([], False),
                  (pop_param p st)\<lparr>graph := add_constraint p (IsSubset (last_value (definitions_of st p)))
                                             (graph st)\<rparr>)
            else (Return ([User (units_diag E (graph st) p (last (definitions_of st p)))], False),
                  pop_param p st))"
proof -
  from assms obtain as where as: "map_of (param_assignments st) p = Some as"
    by (auto simp add: mergeable_def)
  have d: "filter is_definition as \<noteq> []" "\<not> root_after_external (filter is_definition as)"
    using assms as by (simp_all add: mergeable_def definitions_of_def)
  have v: "pd_value (last (filter is_definition as)) = Some (last_value (filter is_definition as))"
    using d(1) by (intro last_definition_value) auto
  have dd: "definitions_of st p = filter is_definition as"
    using as by (simp add: definitions_of_def)
  have lv: "the (pd_value (last (filter is_definition as))) = last_value (filter is_definition as)"
    by (simp add: last_value_def)
  show ?thesis
    using as d v dd lv
    by (simp add: merge_param_def partition_as_list_def Let_def constrain_subset_def
        units_diag_def)
qed


lemma definitions_of_graph [simp]:
  "definitions_of (st\<lparr>graph := g\<rparr>) = definitions_of st"
  by (rule ext) (simp add: definitions_of_def)

lemma mergeable_after:
  "q \<noteq> p \<Longrightarrow> mergeable ((pop_param p st)\<lparr>graph := g\<rparr>) q = mergeable st q"
  "q \<noteq> p \<Longrightarrow> mergeable (pop_param p st) q = mergeable st q"
  by (simp_all add: mergeable_def map_of_pop_param definitions_of_pop_param)

lemma non_root_of_after:
  "q \<noteq> p \<Longrightarrow> non_root_of ((pop_param p st)\<lparr>graph := g\<rparr>) q = non_root_of st q"
  "q \<noteq> p \<Longrightarrow> non_root_of (pop_param p st) q = non_root_of st q"
  by (simp_all add: non_root_of_def definitions_of_pop_param)

lemma root_of_after:
  "q \<noteq> p \<Longrightarrow> root_of ((pop_param p st)\<lparr>graph := g\<rparr>) q = root_of st q"
  "q \<noteq> p \<Longrightarrow> root_of (pop_param p st) q = root_of st q"
  by (simp_all add: root_of_def definitions_of_pop_param)

lemma filter_pop:
  "filter (\<lambda>(k, v). k \<notin> set ps) (param_assignments (pop_param p st)) =
   filter (\<lambda>(k, v). k \<notin> set (p # ps)) (param_assignments st)"
  by (auto simp add: pop_param_def intro!: filter_cong)

lemma gospel_at:
  "add_trait p does_not_require_picker_check (alias_is p v g) q =
     (if q = p then made_gospel (g p) v else g q)"
  by (simp add: add_trait_def alias_is_def add_constraint_def made_gospel_def)

lemma merge_params_pinned:
  assumes "distinct ps" and "\<forall>p \<in> set ps. mergeable st p"
  shows "\<exists>st1. merge_params E True ps errs gs st =
           (Return (errs @ map (\<lambda>p. User (outside_diag (last (non_root_of st p))))
                            (filter (\<lambda>p. non_root_of st p \<noteq> []) ps),
                    gs @ filter (\<lambda>p. non_root_of st p = []) ps), st1)
       \<and> param_assignments st1 = filter (\<lambda>(k, v). k \<notin> set ps) (param_assignments st)
       \<and> log st1 = log st
       \<and> node_stack st1 = node_stack st \<and> traceback_stack st1 = traceback_stack st
       \<and> (\<forall>q. graph st1 q =
                (if q \<in> set ps \<and> non_root_of st q = []
                 then made_gospel (graph st q) (last_value (root_of st q)) else graph st q))"
  using assms
proof (induction ps arbitrary: errs gs st)
  case Nil
  then show ?case by simp
next
  case (Cons p ps)
  have mp: "mergeable st p" and np: "p \<notin> set ps" and dps: "distinct ps"
    using Cons.prems by auto
  have ne: "\<And>q. q \<in> set ps \<Longrightarrow> q \<noteq> p"
    using np by auto
  show ?case
  proof (cases "non_root_of st p = []")
    case True
    let ?st1 = "(pop_param p st)\<lparr>graph := add_trait p does_not_require_picker_check
                                       (alias_is p (last_value (root_of st p)) (graph st))\<rparr>"
    have step: "merge_param E True p st = (Return ([], True), ?st1)"
      using merge_param_pinned_root [OF mp True] .
    have m1: "\<forall>q \<in> set ps. mergeable ?st1 q"
      using Cons.prems ne by (simp add: mergeable_after)
    have nr1: "\<And>q. q \<in> set ps \<Longrightarrow> non_root_of ?st1 q = non_root_of st q"
      and r1: "\<And>q. q \<in> set ps \<Longrightarrow> root_of ?st1 q = root_of st q"
      using ne by (simp_all add: non_root_of_after root_of_after)
    from Cons.IH [OF dps m1, of errs "gs @ [p]"]
    obtain st2 where
      run: "merge_params E True ps errs (gs @ [p]) ?st1 =
           (Return (errs @ map (\<lambda>p. User (outside_diag (last (non_root_of ?st1 p))))
                            (filter (\<lambda>p. non_root_of ?st1 p \<noteq> []) ps),
                    (gs @ [p]) @ filter (\<lambda>p. non_root_of ?st1 p = []) ps), st2)"
      and pa: "param_assignments st2 = filter (\<lambda>(k, v). k \<notin> set ps) (param_assignments ?st1)"
      and lg: "log st2 = log ?st1"
      and stk: "node_stack st2 = node_stack ?st1" "traceback_stack st2 = traceback_stack ?st1"
      and gr: "\<forall>q. graph st2 q =
                (if q \<in> set ps \<and> non_root_of ?st1 q = []
                 then made_gospel (graph ?st1 q) (last_value (root_of ?st1 q)) else graph ?st1 q)"
      by blast
    have f1: "filter (\<lambda>p. non_root_of ?st1 p \<noteq> []) ps = filter (\<lambda>p. non_root_of st p \<noteq> []) ps"
      and f2: "filter (\<lambda>p. non_root_of ?st1 p = []) ps = filter (\<lambda>p. non_root_of st p = []) ps"
      using nr1 by (auto intro!: filter_cong)
    have f3: "map (\<lambda>p. User (outside_diag (last (non_root_of ?st1 p))))
                (filter (\<lambda>p. non_root_of st p \<noteq> []) ps)
              = map (\<lambda>p. User (outside_diag (last (non_root_of st p))))
                (filter (\<lambda>p. non_root_of st p \<noteq> []) ps)"
      using nr1 by auto
    have res: "merge_params E True (p # ps) errs gs st =
           (Return (errs @ map (\<lambda>p. User (outside_diag (last (non_root_of st p))))
                            (filter (\<lambda>p. non_root_of st p \<noteq> []) (p # ps)),
                    gs @ filter (\<lambda>p. non_root_of st p = []) (p # ps)), st2)"
      using step run True f1 f2 f3 by simp
    have pa2: "param_assignments st2 = filter (\<lambda>(k, v). k \<notin> set (p # ps)) (param_assignments st)"
      using pa filter_pop [of ps p st] by simp
    have gr2: "\<forall>q. graph st2 q =
                (if q \<in> set (p # ps) \<and> non_root_of st q = []
                 then made_gospel (graph st q) (last_value (root_of st q)) else graph st q)"
      using gr nr1 r1 np True by (auto simp add: gospel_at)
    show ?thesis using res pa2 lg stk gr2 by simp
  next
    case False
    let ?st1 = "pop_param p st"
    have step: "merge_param E True p st =
           (Return ([User (outside_diag (last (non_root_of st p)))], False), ?st1)"
      using merge_param_pinned_non_root [OF mp False] .
    have m1: "\<forall>q \<in> set ps. mergeable ?st1 q"
      using Cons.prems ne by (simp add: mergeable_after)
    have nr1: "\<And>q. q \<in> set ps \<Longrightarrow> non_root_of ?st1 q = non_root_of st q"
      and r1: "\<And>q. q \<in> set ps \<Longrightarrow> root_of ?st1 q = root_of st q"
      using ne by (simp_all add: non_root_of_after root_of_after)
    from Cons.IH [OF dps m1, of "errs @ [User (outside_diag (last (non_root_of st p)))]" gs]
    obtain st2 where
      run: "merge_params E True ps (errs @ [User (outside_diag (last (non_root_of st p)))]) gs ?st1 =
           (Return ((errs @ [User (outside_diag (last (non_root_of st p)))])
                      @ map (\<lambda>p. User (outside_diag (last (non_root_of ?st1 p))))
                            (filter (\<lambda>p. non_root_of ?st1 p \<noteq> []) ps),
                    gs @ filter (\<lambda>p. non_root_of ?st1 p = []) ps), st2)"
      and pa: "param_assignments st2 = filter (\<lambda>(k, v). k \<notin> set ps) (param_assignments ?st1)"
      and lg: "log st2 = log ?st1"
      and stk: "node_stack st2 = node_stack ?st1" "traceback_stack st2 = traceback_stack ?st1"
      and gr: "\<forall>q. graph st2 q =
                (if q \<in> set ps \<and> non_root_of ?st1 q = []
                 then made_gospel (graph ?st1 q) (last_value (root_of ?st1 q)) else graph ?st1 q)"
      by blast
    have f1: "filter (\<lambda>p. non_root_of ?st1 p \<noteq> []) ps = filter (\<lambda>p. non_root_of st p \<noteq> []) ps"
      and f2: "filter (\<lambda>p. non_root_of ?st1 p = []) ps = filter (\<lambda>p. non_root_of st p = []) ps"
      using nr1 by (auto intro!: filter_cong)
    have f3: "map (\<lambda>p. User (outside_diag (last (non_root_of ?st1 p))))
                (filter (\<lambda>p. non_root_of st p \<noteq> []) ps)
              = map (\<lambda>p. User (outside_diag (last (non_root_of st p))))
                (filter (\<lambda>p. non_root_of st p \<noteq> []) ps)"
      using nr1 by auto
    have res: "merge_params E True (p # ps) errs gs st =
           (Return (errs @ map (\<lambda>p. User (outside_diag (last (non_root_of st p))))
                            (filter (\<lambda>p. non_root_of st p \<noteq> []) (p # ps)),
                    gs @ filter (\<lambda>p. non_root_of st p = []) (p # ps)), st2)"
      using step run False f1 f2 f3 by simp
    have pa2: "param_assignments st2 = filter (\<lambda>(k, v). k \<notin> set (p # ps)) (param_assignments st)"
      using pa filter_pop [of ps p st] by simp
    have gr2: "\<forall>q. graph st2 q =
                (if q \<in> set (p # ps) \<and> non_root_of st q = []
                 then made_gospel (graph st q) (last_value (root_of st q)) else graph st q)"
      using gr nr1 r1 np False by auto
    show ?thesis using res pa2 lg stk gr2 by simp
  qed
qed


lemma narrowed_at:
  "add_constraint p (IsSubset v) g q = (if q = p then narrowed (g p) v else g q)"
  by (simp add: add_constraint_def narrowed_def)

lemma fits_after:
  "q \<noteq> p \<Longrightarrow> fits E ((pop_param p st)\<lparr>graph := add_constraint p c (graph st)\<rparr>) q = fits E st q"
  "q \<noteq> p \<Longrightarrow> fits E (pop_param p st) q = fits E st q"
  by (simp_all add: fits_def definitions_of_pop_param add_constraint_def)

lemma units_diag_after:
  "q \<noteq> p \<Longrightarrow> units_diag E (add_constraint p c g) q = units_diag E g q"
  by (rule ext) (simp add: units_diag_def add_constraint_def)

lemma merge_params_unpinned:
  assumes "distinct ps" and "\<forall>p \<in> set ps. mergeable st p"
  shows "\<exists>st1. merge_params E False ps errs gs st =
           (Return (errs @ map (\<lambda>p. User (units_diag E (graph st) p (last (definitions_of st p))))
                            (filter (\<lambda>p. \<not> fits E st p) ps), gs), st1)
       \<and> param_assignments st1 = filter (\<lambda>(k, v). k \<notin> set ps) (param_assignments st)
       \<and> log st1 = log st
       \<and> node_stack st1 = node_stack st \<and> traceback_stack st1 = traceback_stack st
       \<and> (\<forall>q. graph st1 q =
                (if q \<in> set ps \<and> fits E st q
                 then narrowed (graph st q) (last_value (definitions_of st q)) else graph st q))"
  using assms
proof (induction ps arbitrary: errs st)
  case Nil
  then show ?case by simp
next
  case (Cons p ps)
  have mp: "mergeable st p" and np: "p \<notin> set ps" and dps: "distinct ps"
    using Cons.prems by auto
  have ne: "\<And>q. q \<in> set ps \<Longrightarrow> q \<noteq> p"
    using np by auto
  define st1 where "st1 =
     (if fits E st p
      then (pop_param p st)\<lparr>graph := add_constraint p (IsSubset (last_value (definitions_of st p)))
                                             (graph st)\<rparr>
      else pop_param p st)"
  define es where "es =
     (if fits E st p then [] else [User (units_diag E (graph st) p (last (definitions_of st p)))])"
  have step: "merge_param E False p st = (Return (es, False), st1)"
    using merge_param_unpinned [OF mp, of E] by (simp add: st1_def es_def fits_def)
  have m1: "\<forall>q \<in> set ps. mergeable st1 q"
    using Cons.prems ne by (simp add: mergeable_after st1_def)
  have d1: "\<And>q. q \<in> set ps \<Longrightarrow> definitions_of st1 q = definitions_of st q"
    using ne by (simp add: definitions_of_pop_param st1_def)
  have ft1: "\<And>q. q \<in> set ps \<Longrightarrow> fits E st1 q = fits E st q"
    using ne by (simp add: fits_after st1_def)
  have g1: "\<And>q. q \<in> set ps \<Longrightarrow> graph st1 q = graph st q"
    using ne by (simp add: st1_def add_constraint_def)
  have ud1: "\<And>q. q \<in> set ps \<Longrightarrow> units_diag E (graph st1) q = units_diag E (graph st) q"
    using ne by (simp add: st1_def units_diag_after)
  have pa1: "param_assignments st1 = param_assignments (pop_param p st)"
    by (simp add: st1_def)
  have lg1: "log st1 = log st" "node_stack st1 = node_stack st"
    "traceback_stack st1 = traceback_stack st"
    by (simp_all add: st1_def)
  from Cons.IH [OF dps m1, of "errs @ es"]
  obtain st2 where
    run: "merge_params E False ps (errs @ es) gs st1 =
           (Return ((errs @ es) @ map (\<lambda>p. User (units_diag E (graph st1) p (last (definitions_of st1 p))))
                            (filter (\<lambda>p. \<not> fits E st1 p) ps), gs), st2)"
    and pa: "param_assignments st2 = filter (\<lambda>(k, v). k \<notin> set ps) (param_assignments st1)"
    and lg: "log st2 = log st1"
    and stk: "node_stack st2 = node_stack st1" "traceback_stack st2 = traceback_stack st1"
    and gr: "\<forall>q. graph st2 q =
                (if q \<in> set ps \<and> fits E st1 q
                 then narrowed (graph st1 q) (last_value (definitions_of st1 q)) else graph st1 q)"
    by blast
  have f1: "filter (\<lambda>p. \<not> fits E st1 p) ps = filter (\<lambda>p. \<not> fits E st p) ps"
    using ft1 by (auto intro!: filter_cong)
  have f3: "map (\<lambda>p. User (units_diag E (graph st1) p (last (definitions_of st1 p))))
              (filter (\<lambda>p. \<not> fits E st p) ps)
            = map (\<lambda>p. User (units_diag E (graph st) p (last (definitions_of st p))))
              (filter (\<lambda>p. \<not> fits E st p) ps)"
    using d1 ud1 by auto
  have res: "merge_params E False (p # ps) errs gs st =
           (Return (errs @ map (\<lambda>p. User (units_diag E (graph st) p (last (definitions_of st p))))
                            (filter (\<lambda>p. \<not> fits E st p) (p # ps)), gs), st2)"
    using step run f1 f3 by (simp add: es_def)
  have pa2: "param_assignments st2 = filter (\<lambda>(k, v). k \<notin> set (p # ps)) (param_assignments st)"
    using pa pa1 filter_pop [of ps p st] by simp
  have gp: "graph st1 p = (if fits E st p then narrowed (graph st p) (last_value (definitions_of st p))
                           else graph st p)"
    by (simp add: st1_def narrowed_at)
  have gq: "\<And>q. q \<noteq> p \<Longrightarrow> graph st1 q = graph st q"
    by (simp add: st1_def add_constraint_def)
  have gr2: "\<forall>q. graph st2 q =
                (if q \<in> set (p # ps) \<and> fits E st q
                 then narrowed (graph st q) (last_value (definitions_of st q)) else graph st q)"
  proof
    fix q
    show "graph st2 q =
                (if q \<in> set (p # ps) \<and> fits E st q
                 then narrowed (graph st q) (last_value (definitions_of st q)) else graph st q)"
    proof (cases "q = p")
      case True
      then show ?thesis using gr np gp by simp
    next
      case False
      then show ?thesis using gr gq d1 ft1 g1 by auto
    qed
  qed
  show ?case using res pa2 lg lg1 stk gr2 by simp
qed

lemma pinned_facts:
  "is_part_module (graph bob_pinned) 0" "distinct [1::nat, 2]"
  "mergeable bob_pinned 1" "mergeable bob_pinned 2"
  "non_root_of bob_pinned 1 = []" "non_root_of bob_pinned 2 = [def_y]"
  "root_of bob_pinned 1 = [def_x]"
  by (simp_all add: is_part_module_def bob_pinned_def bob0_def graph_xy_def hollow_def
      isinstance_def has_trait_def L_Module_def mergeable_def definitions_of_def
      root_after_external_def pairwise_def non_root_of_def root_of_def is_definition_def
      is_declaration_def is_root_assignment_def def_x_def def_y_def)


lemma and_then_Return: "and_then (Return a, s) f = f a s"
  by (simp add: and_then_def)

subsection \<open>The groups of the merge\<close>

lemma dict_fromkeys_snoc:
  "dict_fromkeys (ys @ [y]) = (if y \<in> set ys then dict_fromkeys ys else dict_fromkeys ys @ [y])"
  by (simp add: dict_fromkeys_def)

lemma set_dict_fromkeys [simp]: "set (dict_fromkeys ys) = set ys"
  by (simp add: dict_fromkeys_def)

lemma distinct_dict_fromkeys [simp]: "distinct (dict_fromkeys ys)"
  by (simp add: dict_fromkeys_def)

lemma groupby_snoc: "groupby f (xs @ [x]) = group_add (f x) x (groupby f xs)"
  by (simp add: groupby_def)

lemma groupby_spec:
  "groupby f xs = map (\<lambda>k. (k, filter (\<lambda>x. f x = k) xs)) (dict_fromkeys (map f xs))"
proof (induction xs rule: rev_induct)
  case Nil
  then show ?case by (simp add: groupby_def dict_fromkeys_def)
next
  case (snoc x xs)
  let ?ks = "dict_fromkeys (map f xs)"
  have keys: "fst ` set (map (\<lambda>k. (k, filter (\<lambda>x. f x = k) xs)) ?ks) = f ` set xs"
    by (force simp add: image_iff)
  show ?case
  proof (cases "f x \<in> f ` set xs")
    case True
    have "group_add (f x) x (map (\<lambda>k. (k, filter (\<lambda>x. f x = k) xs)) ?ks)
          = map (\<lambda>(k1, xs1). if k1 = f x then (k1, xs1 @ [x]) else (k1, xs1))
              (map (\<lambda>k. (k, filter (\<lambda>x. f x = k) xs)) ?ks)"
      using True keys unfolding group_add_def by simp
    also have "\<dots> = map (\<lambda>k. (k, filter (\<lambda>y. f y = k) (xs @ [x]))) ?ks"
      by auto
    finally show ?thesis
      using True snoc.IH by (simp add: groupby_snoc dict_fromkeys_snoc)
  next
    case False
    have e: "filter (\<lambda>y. f y = f x) xs = []"
      using False by (auto simp add: filter_empty_conv image_iff)
    have "group_add (f x) x (map (\<lambda>k. (k, filter (\<lambda>x. f x = k) xs)) ?ks)
          = map (\<lambda>k. (k, filter (\<lambda>x. f x = k) xs)) ?ks @ [(f x, [x])]"
      using False keys unfolding group_add_def by simp
    also have "\<dots> = map (\<lambda>k. (k, filter (\<lambda>y. f y = k) (xs @ [x]))) (?ks @ [f x])"
      using False e by auto
    finally show ?thesis
      using False snoc.IH by (simp add: groupby_snoc dict_fromkeys_snoc)
  qed
qed

lemma groups_cover:
  "set (concat (map (\<lambda>k. filter (\<lambda>x. f x = k) xs) (dict_fromkeys (map f xs)))) = set xs"
  by auto

lemma groups_distinct:
  assumes "distinct xs"
  shows "distinct (concat (map (\<lambda>k. filter (\<lambda>x. f x = k) xs) (dict_fromkeys (map f xs))))"
proof (rule distinct_concat)
  show "distinct (map (\<lambda>k. filter (\<lambda>x. f x = k) xs) (dict_fromkeys (map f xs)))"
  proof (simp add: distinct_map, rule inj_onI)
    fix k k1
    assume k: "k \<in> f ` set xs" and "k1 \<in> f ` set xs"
      and eq: "filter (\<lambda>x. f x = k) xs = filter (\<lambda>x. f x = k1) xs"
    from k obtain x where x: "x \<in> set xs" "f x = k" by auto
    then have "x \<in> set (filter (\<lambda>x. f x = k) xs)" by simp
    then have "x \<in> set (filter (\<lambda>x. f x = k1) xs)" using eq by simp
    then show "k = k1" using x by simp
  qed
next
  fix ys
  assume "ys \<in> set (map (\<lambda>k. filter (\<lambda>x. f x = k) xs) (dict_fromkeys (map f xs)))"
  then show "distinct ys" using assms by auto
next
  fix ys zs
  assume "ys \<in> set (map (\<lambda>k. filter (\<lambda>x. f x = k) xs) (dict_fromkeys (map f xs)))"
    "zs \<in> set (map (\<lambda>k. filter (\<lambda>x. f x = k) xs) (dict_fromkeys (map f xs)))" "ys \<noteq> zs"
  then show "set ys \<inter> set zs = {}" by auto
qed

lemma concat_map_if:
  "concat (map (\<lambda>p. if P p then [g p] else []) ps) = map g (filter P ps)"
  by (induction ps) simp_all

subsection \<open>The parameters without a definition\<close>

lemma map_of_filter_keys:
  "q \<notin> S \<Longrightarrow> map_of (filter (\<lambda>(k, v). k \<notin> S) xs) q = map_of xs q"
  by (induction xs) auto

lemma unassigned_diag_pop:
  "q \<noteq> p \<Longrightarrow> unassigned_diag (downgrade d (pop_param p st)) q = unassigned_diag st q"
  by (simp add: unassigned_diag_def downgrade_def map_of_pop_param)

lemma report_undefined_result:
  assumes "distinct ps"
    and "\<forall>p \<in> set ps. \<exists>a as. map_of (param_assignments st) p = Some (a # as)"
  shows "report_undefined ps st =
           (Return (),
            st\<lparr>param_assignments := filter (\<lambda>(k, v). k \<notin> set ps) (param_assignments st),
               log := log st @ map (unassigned_diag st) ps\<rparr>)"
  using assms
proof (induction ps arbitrary: st)
  case Nil
  then show ?case by simp
next
  case (Cons p ps)
  from Cons.prems obtain a as where pa: "map_of (param_assignments st) p = Some (a # as)"
    by auto
  define dg where "dg = from_ctx UserActionWithoutEffectError (pd_ctx (last (a # as)))
                  [Txt ''Attribute `'', NodeP p, Txt ''` declared but never assigned.'']
                  (Some (pd_traceback (last (a # as))))"
  let ?s = "downgrade dg (pop_param p st)"
  have ne: "\<And>q. q \<in> set ps \<Longrightarrow> q \<noteq> p" using Cons.prems(1) by auto
  have pre: "\<forall>q \<in> set ps. \<exists>a as. map_of (param_assignments ?s) q = Some (a # as)"
    using Cons.prems(2) ne by (simp add: downgrade_def map_of_pop_param)
  have d: "dg = unassigned_diag st p"
    using pa by (simp add: unassigned_diag_def dg_def)
  have m: "map (unassigned_diag ?s) ps = map (unassigned_diag st) ps"
    using ne by (simp add: unassigned_diag_pop)
  have f: "filter (\<lambda>(k, v). k \<notin> set ps) (param_assignments ?s)
         = filter (\<lambda>(k, v). k \<notin> set (p # ps)) (param_assignments st)"
    using filter_pop [of ps p st] by (simp add: downgrade_def)
  have "report_undefined (p # ps) st = report_undefined ps ?s"
    using pa by (simp add: dg_def)
  also have "\<dots> = (Return (),
            ?s\<lparr>param_assignments := filter (\<lambda>(k, v). k \<notin> set ps) (param_assignments ?s),
               log := log ?s @ map (unassigned_diag ?s) ps\<rparr>)"
    using Cons.prems(1) pre by (intro Cons.IH) auto
  also have "\<dots> = (Return (),
            st\<lparr>param_assignments := filter (\<lambda>(k, v). k \<notin> set (p # ps)) (param_assignments st),
               log := log st @ map (unassigned_diag st) (p # ps)\<rparr>)"
    unfolding m f by (simp add: downgrade_def pop_param_def d)
  finally show ?case .
qed

subsection \<open>What the merge reads of a parameter\<close>

lemma view_same:
  assumes "map_of (param_assignments s1) q = map_of (param_assignments s) q"
    and "graph s1 q = graph s q"
  shows "definitions_of s1 q = definitions_of s q" "non_root_of s1 q = non_root_of s q"
    "root_of s1 q = root_of s q" "mergeable s1 q = mergeable s q" "fits E s1 q = fits E s q"
    "units_diag E (graph s1) q = units_diag E (graph s) q"
    "merged_errors E s1 b q = merged_errors E s b q"
    "merged_node E s1 b q = merged_node E s b q"
proof -
  show d: "definitions_of s1 q = definitions_of s q"
    using assms by (simp add: definitions_of_def)
  show n: "non_root_of s1 q = non_root_of s q" using d by (simp add: non_root_of_def)
  show r: "root_of s1 q = root_of s q" using d by (simp add: root_of_def)
  show "mergeable s1 q = mergeable s q" using d assms by (simp add: mergeable_def)
  show f: "fits E s1 q = fits E s q" using d assms by (simp add: fits_def)
  show u: "units_diag E (graph s1) q = units_diag E (graph s) q"
    using assms by (rule_tac ext) (simp add: units_diag_def)
  show "merged_errors E s1 b q = merged_errors E s b q"
    using d n f u by (simp add: merged_errors_def)
  show "merged_node E s1 b q = merged_node E s b q"
    using d n r f assms by (simp add: merged_node_def)
qed

lemma merged_node_class [simp]: "n_class (merged_node E st b q) = n_class (graph st q)"
  by (simp add: merged_node_def made_gospel_def narrowed_def)

lemma merged_node_parent [simp]: "n_parent (merged_node E st b q) = n_parent (graph st q)"
  by (simp add: merged_node_def made_gospel_def narrowed_def)

lemma merged_node_units [simp]: "n_units (merged_node E st b q) = n_units (graph st q)"
  by (simp add: merged_node_def made_gospel_def narrowed_def)

lemma merged_node_traits:
  "t \<noteq> does_not_require_picker_check \<Longrightarrow>
     (t \<in> set (n_traits (merged_node E st b q))) = (t \<in> set (n_traits (graph st q)))"
  by (simp add: merged_node_def made_gospel_def narrowed_def)

lemma is_part_module_merged:
  assumes "\<forall>q. g1 q = g q \<or> (\<exists>b. g1 q = merged_node E st b q \<and> g q = graph st q)"
  shows "is_part_module g1 m = is_part_module g m"
proof -
  from assms have "g1 m = g m \<or> (\<exists>b. g1 m = merged_node E st b m \<and> g m = graph st m)"
    by blast
  then show ?thesis
    by (auto simp add: is_part_module_def isinstance_def has_trait_def merged_node_traits)
qed

subsection \<open>The parameters of one node\<close>

lemma merge_params_any:
  assumes "distinct ps" and "\<forall>p \<in> set ps. mergeable st p"
  shows "\<exists>st1. merge_params E b ps errs [] st =
           (Return (errs @ concat (map (merged_errors E st b) ps),
                    if b then gospel_params st ps else []), st1)
       \<and> param_assignments st1 = filter (\<lambda>(k, v). k \<notin> set ps) (param_assignments st)
       \<and> log st1 = log st
       \<and> node_stack st1 = node_stack st \<and> traceback_stack st1 = traceback_stack st
       \<and> (\<forall>q. graph st1 q = (if q \<in> set ps then merged_node E st b q else graph st q))"
proof (cases b)
  case True
  then have bt: "b = True" by simp
  have e: "concat (map (merged_errors E st True) ps)
         = map (\<lambda>p. User (outside_diag (last (non_root_of st p))))
             (filter (\<lambda>p. non_root_of st p \<noteq> []) ps)"
    unfolding merged_errors_def if_True by (rule concat_map_if)
  from merge_params_pinned [OF assms, of E errs "[]"]
  obtain st1 where r: "merge_params E True ps errs [] st =
           (Return (errs @ map (\<lambda>p. User (outside_diag (last (non_root_of st p))))
                            (filter (\<lambda>p. non_root_of st p \<noteq> []) ps),
                    [] @ filter (\<lambda>p. non_root_of st p = []) ps), st1)"
    and o: "param_assignments st1 = filter (\<lambda>(k, v). k \<notin> set ps) (param_assignments st)"
      "log st1 = log st" "node_stack st1 = node_stack st"
      "traceback_stack st1 = traceback_stack st"
    and g: "\<forall>q. graph st1 q =
                (if q \<in> set ps \<and> non_root_of st q = []
                 then made_gospel (graph st q) (last_value (root_of st q)) else graph st q)"
    by blast
  have g1: "\<forall>q. graph st1 q = (if q \<in> set ps then merged_node E st True q else graph st q)"
    using g by (simp add: merged_node_def)
  show ?thesis
    unfolding bt using r o g1 by (simp add: e gospel_params_def)
next
  case False
  then have bf: "b = False" by simp
  have e: "concat (map (merged_errors E st False) ps)
         = map (\<lambda>p. User (units_diag E (graph st) p (last (definitions_of st p))))
             (filter (\<lambda>p. \<not> fits E st p) ps)"
    by (induction ps) (simp_all add: merged_errors_def)
  from merge_params_unpinned [OF assms, of E errs "[]"]
  obtain st1 where r: "merge_params E False ps errs [] st =
           (Return (errs @ map (\<lambda>p. User (units_diag E (graph st) p (last (definitions_of st p))))
                            (filter (\<lambda>p. \<not> fits E st p) ps), []), st1)"
    and o: "param_assignments st1 = filter (\<lambda>(k, v). k \<notin> set ps) (param_assignments st)"
      "log st1 = log st" "node_stack st1 = node_stack st"
      "traceback_stack st1 = traceback_stack st"
    and g: "\<forall>q. graph st1 q =
                (if q \<in> set ps \<and> fits E st q
                 then narrowed (graph st q) (last_value (definitions_of st q)) else graph st q)"
    by blast
  have g1: "\<forall>q. graph st1 q = (if q \<in> set ps then merged_node E st False q else graph st q)"
    using g by (simp add: merged_node_def)
  show ?thesis
    unfolding bf using r o g1 by (simp add: e)
qed

subsection \<open>All nodes\<close>

lemma group_same:
  assumes v: "\<forall>q \<in> set (snd grp). map_of (param_assignments s1) q = map_of (param_assignments s) q
                \<and> graph s1 q = graph s q"
    and b: "is_part_module (graph s1) (fst grp) = is_part_module (graph s) (fst grp)"
  shows "group_errors E s1 grp = group_errors E s grp" "group_gospel s1 grp = group_gospel s grp"
proof -
  have e: "\<And>q c. q \<in> set (snd grp) \<Longrightarrow> merged_errors E s1 c q = merged_errors E s c q"
    using v view_same(7) by blast
  have n: "\<And>q. q \<in> set (snd grp) \<Longrightarrow> non_root_of s1 q = non_root_of s q"
    using v view_same(2) by blast
  have m: "map (merged_errors E s1 (is_part_module (graph s) (fst grp))) (snd grp)
      = map (merged_errors E s (is_part_module (graph s) (fst grp))) (snd grp)"
    using e by (intro map_cong) simp_all
  show "group_errors E s1 grp = group_errors E s grp"
    by (simp only: group_errors_def b m)
  have f: "gospel_params s1 (snd grp) = gospel_params s (snd grp)"
    unfolding gospel_params_def using n by (intro filter_cong) simp_all
  show "group_gospel s1 grp = group_gospel s grp"
    by (simp only: group_gospel_def b f)
qed

lemma filter_keys_twice:
  "filter (\<lambda>(k, v). k \<notin> B) (filter (\<lambda>(k, v). k \<notin> A) xs) = filter (\<lambda>(k, v). k \<notin> A \<union> B) xs"
  by (induction xs) auto

lemma merge_nodes_all:
  assumes "distinct (concat (map snd gs))" and "\<forall>p \<in> set (concat (map snd gs)). mergeable st p"
  shows "\<exists>st1. merge_nodes E gs errs st = (Return (errs @ concat (map (group_errors E st) gs)), st1)
       \<and> param_assignments st1 =
           filter (\<lambda>(k, v). k \<notin> set (concat (map snd gs))) (param_assignments st)
       \<and> log st1 = log st @ concat (map (group_gospel st) gs)
       \<and> node_stack st1 = node_stack st \<and> traceback_stack st1 = traceback_stack st
       \<and> (\<forall>grp \<in> set gs. \<forall>q \<in> set (snd grp).
             graph st1 q = merged_node E st (is_part_module (graph st) (fst grp)) q)
       \<and> (\<forall>q. q \<notin> set (concat (map snd gs)) \<longrightarrow> graph st1 q = graph st q)"
  using assms
proof (induction gs arbitrary: errs st)
  case Nil
  then show ?case by simp
next
  case (Cons g gs)
  obtain n ps where g: "g = (n, ps)" by (cases g)
  define b where "b = is_part_module (graph st) n"
  let ?Q = "set (concat (map snd gs))"
  have dps: "distinct ps" and dq: "distinct (concat (map snd gs))"
    and disj: "\<And>q. q \<in> ?Q \<Longrightarrow> q \<notin> set ps"
    using Cons.prems(1) unfolding g by auto
  have mps: "\<forall>p \<in> set ps. mergeable st p" using Cons.prems(2) unfolding g by simp
  from merge_params_any [OF dps mps, of E b errs]
  obtain s1 where
    r1: "merge_params E b ps errs [] st =
           (Return (errs @ concat (map (merged_errors E st b) ps),
                    if b then gospel_params st ps else []), s1)"
    and pa1: "param_assignments s1 = filter (\<lambda>(k, v). k \<notin> set ps) (param_assignments st)"
    and lg1: "log s1 = log st"
    and stk1: "node_stack s1 = node_stack st" "traceback_stack s1 = traceback_stack st"
    and gr1: "\<forall>q. graph s1 q = (if q \<in> set ps then merged_node E st b q else graph st q)"
    by blast
  define gp where "gp = (if b then gospel_params st ps else [])"
  define s2 where "s2 = (if gp \<noteq> [] then downgrade (gospel_diag n gp) s1 else s1)"
  have step: "merge_nodes E (g # gs) errs st =
                merge_nodes E gs (errs @ concat (map (merged_errors E st b) ps)) s2"
    using r1 by (simp add: g b_def gp_def s2_def)
  have ge: "group_errors E st g = concat (map (merged_errors E st b) ps)"
    by (simp add: group_errors_def g b_def)
  have gg: "log s2 = log st @ group_gospel st g"
    using lg1 by (auto simp add: s2_def gp_def group_gospel_def g b_def downgrade_def)
  have pa2: "param_assignments s2 = filter (\<lambda>(k, v). k \<notin> set ps) (param_assignments st)"
    using pa1 by (simp add: s2_def downgrade_def)
  have stk2: "node_stack s2 = node_stack st" "traceback_stack s2 = traceback_stack st"
    using stk1 by (simp_all add: s2_def downgrade_def)
  have gr2: "\<forall>q. graph s2 q = (if q \<in> set ps then merged_node E st b q else graph st q)"
    using gr1 by (simp add: s2_def downgrade_def)
  have pm: "\<And>m. is_part_module (graph s2) m = is_part_module (graph st) m"
  proof -
    fix m
    have "\<forall>q. graph s2 q = graph st q \<or> (\<exists>c. graph s2 q = merged_node E st c q \<and> graph st q = graph st q)"
      using gr2 by auto
    then show "is_part_module (graph s2) m = is_part_module (graph st) m"
      by (rule is_part_module_merged)
  qed
  have vq: "\<And>q. q \<in> ?Q \<Longrightarrow>
      map_of (param_assignments s2) q = map_of (param_assignments st) q \<and> graph s2 q = graph st q"
    using disj gr2 by (simp add: pa2 map_of_filter_keys)
  have m2: "\<forall>p \<in> ?Q. mergeable s2 p"
  proof
    fix p
    assume p: "p \<in> ?Q"
    then have "mergeable st p" using Cons.prems(2) by simp
    then show "mergeable s2 p"
      using view_same(4) [of s2 p st] vq [OF p] by simp
  qed
  have same: "\<And>grp. grp \<in> set gs \<Longrightarrow>
      group_errors E s2 grp = group_errors E st grp \<and> group_gospel s2 grp = group_gospel st grp"
  proof -
    fix grp
    assume "grp \<in> set gs"
    then have "\<forall>q \<in> set (snd grp). q \<in> ?Q" by auto
    then have "\<forall>q \<in> set (snd grp). map_of (param_assignments s2) q = map_of (param_assignments st) q
                \<and> graph s2 q = graph st q"
      using vq by blast
    then show "group_errors E s2 grp = group_errors E st grp \<and> group_gospel s2 grp = group_gospel st grp"
      using group_same(1) [of grp s2 st E] group_same(2) [of grp s2 st] pm by simp
  qed
  from Cons.IH [OF dq m2, of "errs @ concat (map (merged_errors E st b) ps)"]
  obtain s3 where
    r3: "merge_nodes E gs (errs @ concat (map (merged_errors E st b) ps)) s2 =
           (Return ((errs @ concat (map (merged_errors E st b) ps))
                    @ concat (map (group_errors E s2) gs)), s3)"
    and pa3: "param_assignments s3 = filter (\<lambda>(k, v). k \<notin> ?Q) (param_assignments s2)"
    and lg3: "log s3 = log s2 @ concat (map (group_gospel s2) gs)"
    and stk3: "node_stack s3 = node_stack s2" "traceback_stack s3 = traceback_stack s2"
    and gr3: "\<forall>grp \<in> set gs. \<forall>q \<in> set (snd grp).
             graph s3 q = merged_node E s2 (is_part_module (graph s2) (fst grp)) q"
    and gr3o: "\<forall>q. q \<notin> ?Q \<longrightarrow> graph s3 q = graph s2 q"
    by blast
  have me: "map (group_errors E s2) gs = map (group_errors E st) gs"
    using same by (intro map_cong) simp_all
  have mg: "map (group_gospel s2) gs = map (group_gospel st) gs"
    using same by (intro map_cong) simp_all
  have res: "merge_nodes E (g # gs) errs st =
               (Return (errs @ concat (map (group_errors E st) (g # gs))), s3)"
    using step r3 me ge by simp
  have pa: "param_assignments s3 =
           filter (\<lambda>(k, v). k \<notin> set (concat (map snd (g # gs)))) (param_assignments st)"
  proof -
    have "param_assignments s3 = filter (\<lambda>(k, v). k \<notin> set ps \<union> ?Q) (param_assignments st)"
      unfolding pa3 pa2 by (rule filter_keys_twice)
    moreover have "set ps \<union> ?Q = set (concat (map snd (g # gs)))"
      by (simp add: g)
    ultimately show ?thesis by (simp only:)
  qed
  have lg: "log s3 = log st @ concat (map (group_gospel st) (g # gs))"
    using lg3 gg mg by simp
  have grA: "\<forall>grp \<in> set (g # gs). \<forall>q \<in> set (snd grp).
             graph s3 q = merged_node E st (is_part_module (graph st) (fst grp)) q"
  proof (intro ballI)
    fix grp q
    assume grp: "grp \<in> set (g # gs)" and q: "q \<in> set (snd grp)"
    show "graph s3 q = merged_node E st (is_part_module (graph st) (fst grp)) q"
    proof (cases "grp \<in> set gs")
      case True
      then have qQ: "q \<in> ?Q" using q by auto
      have "graph s3 q = merged_node E s2 (is_part_module (graph s2) (fst grp)) q"
        using gr3 True q by blast
      also have "\<dots> = merged_node E st (is_part_module (graph st) (fst grp)) q"
        using view_same(8) [of s2 q st] vq [OF qQ] pm by simp
      finally show ?thesis .
    next
      case False
      then have e: "grp = g" using grp by simp
      then have qp: "q \<in> set ps" using q g by simp
      then have "q \<notin> ?Q" using disj by blast
      then have "graph s3 q = graph s2 q" using gr3o by blast
      then show ?thesis using gr2 qp e g by (simp add: b_def)
    qed
  qed
  have grB: "\<forall>q. q \<notin> set (concat (map snd (g # gs))) \<longrightarrow> graph s3 q = graph st q"
    using gr3o gr2 by (simp add: g)
  show ?case
    using res pa lg stk3 stk2 grA grB by simp
qed

lemma ready_entry:
  assumes "merge_ready st" and "p \<in> set (map fst (param_assignments st))"
  shows "\<exists>a as. map_of (param_assignments st) p = Some (a # as)
           \<and> definitions_of st p = filter is_definition (a # as)
           \<and> \<not> root_after_external (filter is_definition (a # as))
           \<and> (filter is_definition (a # as) \<noteq> [] \<longrightarrow> n_parent (graph st p) \<noteq> None)"
proof -
  from assms(2) obtain xs where m: "(p, xs) \<in> set (param_assignments st)" by auto
  have d: "distinct (map fst (param_assignments st))" using assms(1) by (simp add: merge_ready_def)
  have mo: "map_of (param_assignments st) p = Some xs"
    using d m by simp
  have ok: "xs \<noteq> [] \<and> \<not> root_after_external (filter is_definition xs) \<and>
         (filter is_definition xs \<noteq> [] \<longrightarrow> n_parent (graph st p) \<noteq> None)"
    using assms(1) m by (auto simp add: merge_ready_def)
  then obtain a as where xs: "xs = a # as" by (cases xs) auto
  show ?thesis using mo ok xs by (simp add: definitions_of_def)
qed

lemma ready_partition:
  assumes "merge_ready st"
  shows "filter (\<lambda>p. \<not> (\<exists>a \<in> set (the (map_of (param_assignments st) p)). is_definition a))
           (map fst (param_assignments st)) = undefined_params st"
    and "filter (\<lambda>p. \<exists>a \<in> set (the (map_of (param_assignments st) p)). is_definition a)
           (map fst (param_assignments st)) = defined_params st"
proof -
  have e: "\<And>p. p \<in> set (map fst (param_assignments st)) \<Longrightarrow>
      (\<exists>a \<in> set (the (map_of (param_assignments st) p)). is_definition a)
        = (definitions_of st p \<noteq> [])"
  proof -
    fix p
    assume "p \<in> set (map fst (param_assignments st))"
    from ready_entry [OF assms this]
    obtain a as where "map_of (param_assignments st) p = Some (a # as)"
      "definitions_of st p = filter is_definition (a # as)" by blast
    then show "(\<exists>a \<in> set (the (map_of (param_assignments st) p)). is_definition a)
        = (definitions_of st p \<noteq> [])"
      by (simp only: option.sel filter_empty_conv) blast
  qed
  show "filter (\<lambda>p. \<not> (\<exists>a \<in> set (the (map_of (param_assignments st) p)). is_definition a))
           (map fst (param_assignments st)) = undefined_params st"
    unfolding undefined_params_def using e by (intro filter_cong) simp_all
  show "filter (\<lambda>p. \<exists>a \<in> set (the (map_of (param_assignments st) p)). is_definition a)
           (map fst (param_assignments st)) = defined_params st"
    unfolding defined_params_def using e by (intro filter_cong) simp_all
qed

lemma groups_of_owner:
  "groupby (get_parent_force (graph st)) (defined_params st)
     = map (\<lambda>n. (n, params_of st n)) (owners st)"
proof -
  have o: "get_parent_force (graph st) = owner st"
    by (rule ext) (simp add: owner_def)
  show ?thesis
    unfolding groupby_spec o by (simp add: owners_def params_of_def)
qed

lemma merge_result:
  assumes rdy: "merge_ready st"
  shows "\<exists>st2. merge_parameter_assignments E st =
           ((if merge_errors E st = [] then Return () else Raise (merge_errors E st)), st2)
       \<and> param_assignments st2 = []
       \<and> log st2 = log st @ map (unassigned_diag st) (undefined_params st)
                    @ concat (map (\<lambda>n. group_gospel st (n, params_of st n)) (owners st))
       \<and> node_stack st2 = node_stack st \<and> traceback_stack st2 = traceback_stack st
       \<and> (\<forall>q \<in> set (defined_params st).
             graph st2 q = merged_node E st (is_part_module (graph st) (owner st q)) q)
       \<and> (\<forall>q. q \<notin> set (defined_params st) \<longrightarrow> graph st2 q = graph st q)"
proof -
  let ?pa = "param_assignments st"
  let ?U = "undefined_params st" and ?D = "defined_params st"
  have dk: "distinct (map fst ?pa)" using rdy by (simp add: merge_ready_def)
  have dU: "distinct ?U" and dD: "distinct ?D"
    using dk by (simp_all add: undefined_params_def defined_params_def)
  have inU: "\<And>p. p \<in> set ?U \<Longrightarrow> p \<in> set (map fst ?pa)"
    and inD: "\<And>p. p \<in> set ?D \<Longrightarrow> p \<in> set (map fst ?pa)"
    by (simp_all add: undefined_params_def defined_params_def)
  have UD: "\<And>p. p \<in> set ?D \<Longrightarrow> p \<notin> set ?U"
    by (simp add: undefined_params_def defined_params_def)
  have cover: "\<And>k. k \<in> set (map fst ?pa) \<Longrightarrow> k \<in> set ?U \<or> k \<in> set ?D"
    by (auto simp add: undefined_params_def defined_params_def)
  have preU: "\<forall>p \<in> set ?U. \<exists>a as. map_of ?pa p = Some (a # as)"
    using ready_entry [OF rdy] inU by blast
  define s1 where "s1 = st\<lparr>param_assignments := filter (\<lambda>(k, v). k \<notin> set ?U) ?pa,
                            log := log st @ map (unassigned_diag st) ?U\<rparr>"
  have ru: "report_undefined ?U st = (Return (), s1)"
    unfolding s1_def by (rule report_undefined_result [OF dU preU])
  have g1: "graph s1 = graph st" by (simp add: s1_def)
  have v1: "\<And>q. q \<in> set ?D \<Longrightarrow>
      map_of (param_assignments s1) q = map_of ?pa q \<and> graph s1 q = graph st q"
    using UD by (simp add: s1_def map_of_filter_keys)
  have par: "\<not> (\<exists>p \<in> set ?D. n_parent (graph s1 p) = None)"
  proof
    assume "\<exists>p \<in> set ?D. n_parent (graph s1 p) = None"
    then obtain p where p: "p \<in> set ?D" "n_parent (graph st p) = None" using g1 by auto
    from ready_entry [OF rdy inD [OF p(1)]] p
    show False by (auto simp add: defined_params_def)
  qed
  let ?gs = "map (\<lambda>n. (n, params_of st n)) (owners st)"
  have gb: "groupby (get_parent_force (graph s1)) ?D = ?gs"
    unfolding g1 by (rule groups_of_owner)
  have cc: "concat (map snd ?gs)
          = concat (map (\<lambda>k. filter (\<lambda>x. owner st x = k) ?D) (dict_fromkeys (map (owner st) ?D)))"
    by (simp add: owners_def params_of_def comp_def)
  have dc: "distinct (concat (map snd ?gs))"
    unfolding cc using dD by (rule groups_distinct)
  have sc: "set (concat (map snd ?gs)) = set ?D"
    unfolding cc by (rule groups_cover)
  have m1: "\<forall>p \<in> set (concat (map snd ?gs)). mergeable s1 p"
  proof
    fix p
    assume "p \<in> set (concat (map snd ?gs))"
    then have p: "p \<in> set ?D" unfolding sc .
    from ready_entry [OF rdy inD [OF p]] p
    have "mergeable st p"
      by (auto simp add: mergeable_def defined_params_def)
    then show "mergeable s1 p"
      using view_same(4) [of s1 p st] v1 [OF p] by simp
  qed
  from merge_nodes_all [OF dc m1, of E "[]"]
  obtain s2 where
    r2: "merge_nodes E ?gs [] s1 = (Return ([] @ concat (map (group_errors E s1) ?gs)), s2)"
    and pa2: "param_assignments s2 =
           filter (\<lambda>(k, v). k \<notin> set (concat (map snd ?gs))) (param_assignments s1)"
    and lg2: "log s2 = log s1 @ concat (map (group_gospel s1) ?gs)"
    and stk2: "node_stack s2 = node_stack s1" "traceback_stack s2 = traceback_stack s1"
    and gr2: "\<forall>grp \<in> set ?gs. \<forall>q \<in> set (snd grp).
             graph s2 q = merged_node E s1 (is_part_module (graph s1) (fst grp)) q"
    and gr2o: "\<forall>q. q \<notin> set (concat (map snd ?gs)) \<longrightarrow> graph s2 q = graph s1 q"
    by blast
  have same: "\<And>grp. grp \<in> set ?gs \<Longrightarrow>
      group_errors E s1 grp = group_errors E st grp \<and> group_gospel s1 grp = group_gospel st grp"
  proof -
    fix grp
    assume "grp \<in> set ?gs"
    then have "\<forall>q \<in> set (snd grp). q \<in> set ?D"
      by (auto simp add: params_of_def)
    then have "\<forall>q \<in> set (snd grp). map_of (param_assignments s1) q = map_of ?pa q
                \<and> graph s1 q = graph st q"
      using v1 by blast
    then show "group_errors E s1 grp = group_errors E st grp \<and> group_gospel s1 grp = group_gospel st grp"
      using group_same(1) [of grp s1 st E] group_same(2) [of grp s1 st] g1 by simp
  qed
  have me: "map (group_errors E s1) ?gs = map (group_errors E st) ?gs"
    using same by (intro map_cong) simp_all
  have mg: "map (group_gospel s1) ?gs = map (group_gospel st) ?gs"
    using same by (intro map_cong) simp_all
  have errs: "concat (map (group_errors E s1) ?gs) = merge_errors E st"
    unfolding me by (simp add: merge_errors_def comp_def)
  have gos: "concat (map (group_gospel s1) ?gs)
           = concat (map (\<lambda>n. group_gospel st (n, params_of st n)) (owners st))"
    unfolding mg by (simp add: comp_def)
  have run: "merge_parameter_assignments E st =
           ((if merge_errors E st = [] then Return () else Raise (merge_errors E st)), s2)"
  proof -
    have "merge_parameter_assignments E st =
            and_then (report_undefined ?U st)
              (\<lambda>u st1.
                 if \<exists>p \<in> set ?D. n_parent (graph st1 p) = None then (Crash NodeException, st1)
                 else
                   and_then (merge_nodes E (groupby (get_parent_force (graph st1)) ?D) [] st1)
                     (\<lambda>errs st2. if errs = [] then (Return (), st2) else (Raise errs, st2)))"
      unfolding merge_parameter_assignments_def partition_as_list_def Let_def fst_conv snd_conv
        ready_partition [OF rdy] ..
    also have "\<dots> = and_then (merge_nodes E ?gs [] s1)
                     (\<lambda>errs st2. if errs = [] then (Return (), st2) else (Raise errs, st2))"
      unfolding ru and_then_Return using par gb by auto
    also have "\<dots> = ((if merge_errors E st = [] then Return () else Raise (merge_errors E st)), s2)"
      unfolding r2 and_then_Return errs by simp
    finally show ?thesis .
  qed
  have empty: "param_assignments s2 = []"
  proof -
    have p1: "param_assignments s1 = filter (\<lambda>(k, v). k \<notin> set ?U) ?pa"
      by (simp add: s1_def)
    have "param_assignments s2 = filter (\<lambda>(k, v). k \<notin> set ?U \<union> set ?D) ?pa"
      unfolding pa2 sc p1 by (rule filter_keys_twice)
    moreover have "\<forall>x \<in> set ?pa. \<not> (case x of (k, v) \<Rightarrow> k \<notin> set ?U \<union> set ?D)"
      using cover by force
    ultimately show ?thesis by (simp add: filter_empty_conv)
  qed
  have lg: "log s2 = log st @ map (unassigned_diag st) ?U
                    @ concat (map (\<lambda>n. group_gospel st (n, params_of st n)) (owners st))"
    unfolding lg2 gos by (simp add: s1_def)
  have stk: "node_stack s2 = node_stack st" "traceback_stack s2 = traceback_stack st"
    using stk2 by (simp_all add: s1_def)
  have grD: "\<forall>q \<in> set ?D. graph s2 q = merged_node E st (is_part_module (graph st) (owner st q)) q"
  proof
    fix q
    assume q: "q \<in> set ?D"
    let ?grp = "(owner st q, params_of st (owner st q))"
    have in_gs: "?grp \<in> set ?gs"
      using q by (auto simp add: owners_def)
    have in_ps: "q \<in> set (snd ?grp)" using q by (simp add: params_of_def)
    have "graph s2 q = merged_node E s1 (is_part_module (graph s1) (fst ?grp)) q"
      using gr2 in_gs in_ps by blast
    also have "\<dots> = merged_node E st (is_part_module (graph st) (owner st q)) q"
      using view_same(8) [of s1 q st] v1 [OF q] g1 by simp
    finally show "graph s2 q = merged_node E st (is_part_module (graph st) (owner st q)) q" .
  qed
  have grO: "\<forall>q. q \<notin> set ?D \<longrightarrow> graph s2 q = graph st q"
    using gr2o unfolding sc g1 .
  show ?thesis using run empty lg stk grD grO by blast
qed

lemma in_merge_errors:
  assumes "p \<in> set (defined_params st)"
    and "e \<in> set (merged_errors E st (is_part_module (graph st) (owner st p)) p)"
  shows "e \<in> set (merge_errors E st)"
proof -
  have o: "owner st p \<in> set (owners st)" using assms(1) by (simp add: owners_def)
  have q: "p \<in> set (params_of st (owner st p))" using assms(1) by (simp add: params_of_def)
  have "e \<in> set (group_errors E st (owner st p, params_of st (owner st p)))"
    using q assms(2) by (auto simp add: group_errors_def)
  then show ?thesis using o by (auto simp add: merge_errors_def)
qed

lemma gospel_log_list:
  "concat (map (\<lambda>n. group_gospel st (n, params_of st n)) ns)
     = map (\<lambda>n. gospel_diag n (gospel_params st (params_of st n)))
         (filter (\<lambda>n. is_part_module (graph st) n \<and> gospel_params st (params_of st n) \<noteq> []) ns)"
  by (induction ns) (simp_all add: group_gospel_def)

lemma gospel_log:
  "concat (map (\<lambda>n. group_gospel st (n, params_of st n)) (owners st))
     = map (\<lambda>n. gospel_diag n (gospel_params st (params_of st n)))
         (filter (\<lambda>n. is_part_module (graph st) n \<and> gospel_params st (params_of st n) \<noteq> [])
            (owners st))"
  by (rule gospel_log_list)

lemma pinned_reading:
  "merge_ready bob_pinned" "defined_params bob_pinned = [1, 2]" "undefined_params bob_pinned = []"
  "owner bob_pinned 1 = 0" "owner bob_pinned 2 = 0"
  "log bob_pinned = []"
  by (simp_all add: merge_ready_def defined_params_def undefined_params_def owner_def
      get_parent_force_def bob_pinned_def bob0_def graph_xy_def hollow_def definitions_of_def
      root_after_external_def pairwise_def is_definition_def is_declaration_def
      is_root_assignment_def def_x_def def_y_def)

lemma pinned_groups:
  "owners bob_pinned = [0]" "params_of bob_pinned 0 = [1, 2]"
  "gospel_params bob_pinned [1, 2] = [1]"
  by (simp_all add: owners_def params_of_def gospel_params_def pinned_reading pinned_facts
      dict_fromkeys_def del: One_nat_def)


text \<open>
  C2, as stated: on a part-pinned component a definition made through a nested field path
  makes the merge fail with a Type-Mismatch-class diagnostic, while a root definition
  succeeds and aliases the parameter. The pinned component's parameter \<open>x\<close> has the root
  definition \<open>x = 100ohm\<close> and then the outside definition \<open>r.x = 100ohm\<close>: the merge raises
  a \<open>UserNotImplementedError\<close>, which is not the type error class, and the parameter is
  neither aliased nor marked, although it has a root definition.
\<close>

theorem pinned_outside_assignment_not_type_error:
  "fst (merge_parameter_assignments env0 bob_pinned_mixed) =
     Raise [User (from_ctx UserNotImplementedError (Child (File_input 0) 8)
       [Txt ''You can't assign to a `component` with a specific part number outside of its definition'']
       (Some [Name (Child (File_input 0) 2)]))]
   \<and> UserNotImplementedError \<noteq> UserTypeError
   \<and> root_of bob_pinned_mixed 1 = [def_x]
   \<and> n_constraints (graph (snd (merge_parameter_assignments env0 bob_pinned_mixed)) 1) = []
   \<and> n_traits (graph (snd (merge_parameter_assignments env0 bob_pinned_mixed)) 1) = []"
  by (simp add: merge_parameter_assignments_def partition_as_list_def and_then_def
      bob_pinned_mixed_def bob_pinned_def bob0_def graph_xy_def hollow_def groupby_def group_add_def
      get_parent_force_def is_part_module_def isinstance_def has_trait_def L_Module_def
      merge_param_def pop_param_def root_after_external_def pairwise_def is_definition_def
      is_declaration_def is_root_assignment_def def_x_def def_x_outside_def root_of_def
      definitions_of_def)

text \<open>
  C2, amended. When the pending records are ready for the merge, the merge pass consumes
  every record, and for every parameter that has a definition and whose owner (its parent
  node, by which the merge groups the parameters) is part-pinned: if it has a definition
  made through a nested path, the merge raises, among the diagnostics it collected, a
  \<open>UserNotImplementedError\<close> at the context and with the traceback of the last such
  definition, and the parameter is left as it was; if all its definitions are root
  definitions, it is aliased to the value of the last one and marked as not requiring a
  picker check. The log gains, after the reports of the parameters that were declared
  but never defined, one gospel diagnostic for every pinned owner that has such a
  parameter, listing exactly these parameters; every owner occurs once.
\<close>

theorem pinned_parameter_merge:
  assumes "merge_ready st"
  shows "\<exists>r st2. merge_parameter_assignments E st = (r, st2)
       \<and> param_assignments st2 = []
       \<and> (\<forall>p \<in> set (defined_params st). is_part_module (graph st) (owner st p) \<longrightarrow>
            (non_root_of st p \<noteq> [] \<longrightarrow>
               (\<exists>errs. r = Raise errs \<and> User (outside_diag (last (non_root_of st p))) \<in> set errs)
             \<and> graph st2 p = graph st p)
          \<and> (non_root_of st p = [] \<longrightarrow>
               graph st2 p = made_gospel (graph st p) (last_value (root_of st p))))
       \<and> log st2 = log st @ map (unassigned_diag st) (undefined_params st)
            @ map (\<lambda>n. gospel_diag n (gospel_params st (params_of st n)))
                (filter (\<lambda>n. is_part_module (graph st) n \<and> gospel_params st (params_of st n) \<noteq> [])
                   (owners st))
       \<and> distinct (owners st)"
proof -
  from merge_result [OF assms, of E]
  obtain st2 where
    run: "merge_parameter_assignments E st =
           ((if merge_errors E st = [] then Return () else Raise (merge_errors E st)), st2)"
    and pa: "param_assignments st2 = []"
    and lg: "log st2 = log st @ map (unassigned_diag st) (undefined_params st)
                    @ concat (map (\<lambda>n. group_gospel st (n, params_of st n)) (owners st))"
    and gr: "\<forall>q \<in> set (defined_params st).
             graph st2 q = merged_node E st (is_part_module (graph st) (owner st q)) q"
    by blast
  define r where "r = (if merge_errors E st = [] then Return () else Raise (merge_errors E st))"
  have each: "\<forall>p \<in> set (defined_params st). is_part_module (graph st) (owner st p) \<longrightarrow>
            (non_root_of st p \<noteq> [] \<longrightarrow>
               (\<exists>errs. r = Raise errs \<and> User (outside_diag (last (non_root_of st p))) \<in> set errs)
             \<and> graph st2 p = graph st p)
          \<and> (non_root_of st p = [] \<longrightarrow>
               graph st2 p = made_gospel (graph st p) (last_value (root_of st p)))"
  proof (intro ballI impI conjI)
    fix p
    assume p: "p \<in> set (defined_params st)" and pin: "is_part_module (graph st) (owner st p)"
    have g: "graph st2 p = merged_node E st True p" using gr p pin by simp
    {
      assume nr: "non_root_of st p \<noteq> []"
      have "User (outside_diag (last (non_root_of st p)))
              \<in> set (merged_errors E st (is_part_module (graph st) (owner st p)) p)"
        using pin nr by (simp add: merged_errors_def)
      then have m: "User (outside_diag (last (non_root_of st p))) \<in> set (merge_errors E st)"
        using p by (rule in_merge_errors [rotated])
      then have "merge_errors E st \<noteq> []" by auto
      then show "\<exists>errs. r = Raise errs \<and> User (outside_diag (last (non_root_of st p))) \<in> set errs"
        using m by (simp add: r_def)
      show "graph st2 p = graph st p" using g nr by (simp add: merged_node_def)
    }
    {
      assume "non_root_of st p = []"
      then show "graph st2 p = made_gospel (graph st p) (last_value (root_of st p))"
        using g by (simp add: merged_node_def)
    }
  qed
  have d: "distinct (owners st)" by (simp add: owners_def)
  show ?thesis
    using run pa each lg d unfolding gospel_log r_def by blast
qed

theorem pinned_parameter_merge_witness:
  "(\<exists>errs. fst (merge_parameter_assignments env0 bob_pinned) = Raise errs
        \<and> User (outside_diag def_y) \<in> set errs)
   \<and> param_assignments (snd (merge_parameter_assignments env0 bob_pinned)) = []
   \<and> graph (snd (merge_parameter_assignments env0 bob_pinned)) 2 = graph bob_pinned 2
   \<and> graph (snd (merge_parameter_assignments env0 bob_pinned)) 1
        = made_gospel (graph bob_pinned 1) value_100ohm
   \<and> log (snd (merge_parameter_assignments env0 bob_pinned)) = [gospel_diag 0 [1]]"
proof -
  have lv: "last_value [def_x] = value_100ohm"
    by (simp add: last_value_def def_x_def)
  from pinned_parameter_merge [OF pinned_reading(1), of env0]
  show ?thesis
    by (auto simp add: pinned_reading pinned_groups pinned_facts lv simp del: One_nat_def)
qed




section \<open>Resolving imports once\<close>

lemma find_scope_in_dom: "find_scope sc x = Some c \<Longrightarrow> sc c \<noteq> None"
  by (induction sc x rule: find_scope.induct) (auto split: if_splits)

lemma find_scope_stable:
  assumes "\<forall>k. sc k \<noteq> None \<longrightarrow> sc1 k \<noteq> None"
    and "\<forall>k. sc k = None \<and> sc1 k \<noteq> None \<longrightarrow> (\<exists>a. k = File_input a)"
  shows "find_scope sc x = Some c \<Longrightarrow> find_scope sc1 x = Some c"
  using assms
proof (induction sc x rule: find_scope.induct)
  case (1 sc a)
  then show ?case by (auto split: if_splits)
next
  case (2 sc c0 i)
  then show ?case by (cases "sc (Child c0 i) = None") (auto split: if_splits)
next
  case (3 sc c0)
  then show ?case by (cases "sc (Name c0) = None") (auto split: if_splits)
next
  case (4 sc c0)
  then show ?case by (cases "sc (New_stmt c0) = None") (auto split: if_splits)
qed

lemma add_trace_scopes [simp]: "scopes (add_trace evs st) = scopes st"
  by (simp add: add_trace_def)

lemma index_ast_scopes:
  assumes "index_ast E ast fp st = (r, st1)"
  shows "(\<forall>k. scopes st k \<noteq> None \<longrightarrow> scopes st1 k = scopes st k)
       \<and> (\<forall>k. scopes st k = None \<and> scopes st1 k \<noteq> None \<longrightarrow> (\<exists>a. k = File_input a))"
  using assms
  by (auto simp add: index_ast_def file_ctx_def split: option.splits prod.splits outcome.splits
      if_splits)

lemma index_file_scopes:
  assumes "index_file E fp st = (r, st1)"
  shows "(\<forall>k. scopes st k \<noteq> None \<longrightarrow> scopes st1 k = scopes st k)
       \<and> (\<forall>k. scopes st k = None \<and> scopes st1 k \<noteq> None \<longrightarrow> (\<exists>a. k = File_input a))"
  using index_ast_scopes [of E "get_ast_from_file E fp" "Some fp" "add_trace [Parse fp] st" r st1] assms
  by (simp add: index_file_def)

lemma import_item_result:
  assumes "import_item E context ph st = (Return it, st1)"
  shows "(\<forall>ph1. it \<noteq> Placeholder ph1)
       \<and> (\<forall>k. scopes st k \<noteq> None \<longrightarrow> scopes st1 k = scopes st k)
       \<and> (\<forall>k. scopes st k = None \<and> scopes st1 k \<noteq> None \<longrightarrow> (\<exists>a. k = File_input a))"
proof (cases "probe E (get_search_paths E st context) (from_path ph)")
  case (Pair found evs)
  show ?thesis
  proof (cases found)
    case None
    then show ?thesis using assms Pair by (simp add: import_item_def)
  next
    case (Some candidate)
    let ?fp = "sanitise_path E candidate"
    show ?thesis
    proof (cases "path_suffix E ?fp = ''.py''")
      case True
      then show ?thesis
        using assms Pair Some
        by (auto simp add: import_item_def Let_def split: option.splits sum.splits pyobj.splits)
    next
      case False
      note npy = False
      show ?thesis
      proof (cases "path_suffix E ?fp = ''.ato''")
        case False
        then show ?thesis using assms Pair Some npy by (simp add: import_item_def Let_def)
      next
        case True
        obtain r2 st2 where ix: "index_file E ?fp (add_trace evs st) = (r2, st2)"
          by (cases "index_file E ?fp (add_trace evs st)")
        have sc: "(\<forall>k. scopes st k \<noteq> None \<longrightarrow> scopes st2 k = scopes st k)
           \<and> (\<forall>k. scopes st k = None \<and> scopes st2 k \<noteq> None \<longrightarrow> (\<exists>a. k = File_input a))"
          using index_file_scopes [OF ix] by simp
        show ?thesis
          using assms Pair Some npy True ix sc
          by (auto simp add: import_item_def Let_def and_then_def
              split: outcome.splits option.splits item.splits)
      qed
    qed
  qed
qed

text \<open>
  C6. When a reference resolves to a value, resolving it again from the same site, in the
  state the first resolution left, gives the same value and changes nothing: no file is
  probed, parsed or surveyed again. After the first resolution the scope table found
  from the site holds the resolved value for the reference, and that value is no
  placeholder. A syntax tree that has been surveyed is not surveyed again: its scope
  table is returned as it is stored.
\<close>

theorem import_resolved_once:
  "(get_referenced_class E s r st = (Return it, st1) \<longrightarrow>
      get_referenced_class E s r st1 = (Return it, st1))
   \<and> (get_referenced_class E s r st = (Return it, st1) \<longrightarrow>
        find_scope (scopes st) (site_ctx s) = Some c \<longrightarrow> r \<noteq> [] \<longrightarrow>
        (\<exists>context1. scopes st1 c = Some context1 \<and> refs context1 r = Some it
                     \<and> (\<forall>ph. it \<noteq> Placeholder ph)))
   \<and> (index_ast E ast fp st = (Return context, st2) \<longrightarrow>
        index_ast E ast fp1 st2 = (Return context, st2))"
proof -
  have idx: "index_ast E ast fp st = (Return context, st2) \<longrightarrow>
        index_ast E ast fp1 st2 = (Return context, st2)"
    by (auto simp add: index_ast_def split: option.splits prod.splits outcome.splits)
  have main: "get_referenced_class E s r st = (Return it, st1) \<Longrightarrow>
      get_referenced_class E s r st1 = (Return it, st1)
      \<and> (\<forall>c. find_scope (scopes st) (site_ctx s) = Some c \<longrightarrow> r \<noteq> [] \<longrightarrow>
        (\<exists>context1. scopes st1 c = Some context1 \<and> refs context1 r = Some it
                     \<and> (\<forall>ph. it \<noteq> Placeholder ph)))"
  proof -
    assume g: "get_referenced_class E s r st = (Return it, st1)"
    show ?thesis
    proof (cases "r = []")
      case True
      then show ?thesis using g
        by (auto simp add: get_referenced_class_def split: site.splits)
    next
      case False
      note rne = False
      from g rne obtain c0 where fs: "find_scope (scopes st) (site_ctx s) = Some c0"
        by (auto simp add: get_referenced_class_def split: option.splits)
      from g rne fs obtain cx where cx: "scopes st c0 = Some cx"
        by (auto simp add: get_referenced_class_def split: option.splits)
      from g rne fs cx obtain found where fd: "refs cx r = Some found"
        by (auto simp add: get_referenced_class_def split: option.splits)
      show ?thesis
      proof (cases "\<exists>ph. found = Placeholder ph")
        case False
        then have "st1 = st" "it = found"
          using g rne fs cx fd
          by (auto simp add: get_referenced_class_def split: item.splits)
        then show ?thesis using g fs cx fd False by auto
      next
        case True
        then obtain ph where ph: "found = Placeholder ph" by blast
        from g rne fs cx fd ph obtain st3 where
          im: "import_item E cx ph st = (Return it, st3)"
          and st1: "st1 = st3\<lparr>scopes := (scopes st3)(c0 \<mapsto> cx\<lparr>refs := (refs cx)(r \<mapsto> it)\<rparr>)\<rparr>"
          by (auto simp add: get_referenced_class_def and_then_def
              split: outcome.splits prod.splits)
        from import_item_result [OF im]
        have np: "\<forall>ph1. it \<noteq> Placeholder ph1"
          and keep: "\<forall>k. scopes st k \<noteq> None \<longrightarrow> scopes st3 k = scopes st k"
          and fresh: "\<forall>k. scopes st k = None \<and> scopes st3 k \<noteq> None \<longrightarrow> (\<exists>a. k = File_input a)"
          by blast+
        have a1: "\<forall>k. scopes st k \<noteq> None \<longrightarrow> scopes st1 k \<noteq> None"
          using keep st1 by auto
        have a2: "\<forall>k. scopes st k = None \<and> scopes st1 k \<noteq> None \<longrightarrow> (\<exists>a. k = File_input a)"
          using fresh st1 cx by auto
        have fs1: "find_scope (scopes st1) (site_ctx s) = Some c0"
          using find_scope_stable [OF a1 a2 fs] .
        have sc1: "scopes st1 c0 = Some (cx\<lparr>refs := (refs cx)(r \<mapsto> it)\<rparr>)"
          using st1 by simp
        have again: "get_referenced_class E s r st1 = (Return it, st1)"
          using rne fs1 sc1 np
          by (auto simp add: get_referenced_class_def split: item.splits)
        show ?thesis using again fs sc1 np by auto
      qed
    qed
  qed
  show ?thesis using idx main by blast
qed

lemma import_example:
  "fst (get_referenced_class env0 (AtCtx (Child (File_input 0) 5)) [''Part''] bob_import)
     = Return (Blockdef part_def)"
  "trace (snd (get_referenced_class env0 (AtCtx (Child (File_input 0) 5)) [''Part''] bob_import))
     = [Probe ''lib/parts.ato'', Parse ''lib/parts.ato'', Survey (File_input 7)]"
  by (simp_all add: get_referenced_class_def bob_import_def bob0_def import_item_def
      get_search_paths_def env0_def and_then_def index_file_def index_ast_def add_trace_def
      file_ctx_def survey_def survey_entry_def find_shim_def part_def_def Let_def)

theorem import_resolved_once_witness:
  "fst (get_referenced_class env0 (AtCtx (Child (File_input 0) 5)) [''Part''] bob_import)
     = Return (Blockdef part_def)
   \<and> get_referenced_class env0 (AtCtx (Child (File_input 0) 5)) [''Part'']
       (snd (get_referenced_class env0 (AtCtx (Child (File_input 0) 5)) [''Part''] bob_import))
     = (Return (Blockdef part_def),
        snd (get_referenced_class env0 (AtCtx (Child (File_input 0) 5)) [''Part''] bob_import))
   \<and> trace (snd (get_referenced_class env0 (AtCtx (Child (File_input 0) 5)) [''Part''] bob_import))
     = [Probe ''lib/parts.ato'', Parse ''lib/parts.ato'', Survey (File_input 7)]"
proof -
  have h: "get_referenced_class env0 (AtCtx (Child (File_input 0) 5)) [''Part''] bob_import
     = (Return (Blockdef part_def),
        snd (get_referenced_class env0 (AtCtx (Child (File_input 0) 5)) [''Part''] bob_import))"
    using import_example(1) by (simp add: prod_eq_iff)
  show ?thesis
    using import_resolved_once [of env0 "AtCtx (Child (File_input 0) 5)" "[''Part'']" bob_import
        "Blockdef part_def"
        "snd (get_referenced_class env0 (AtCtx (Child (File_input 0) 5)) [''Part''] bob_import)"]
      h import_example
    by blast
qed

section \<open>The stacks across a statement\<close>

lemma same_stacks_refl [simp]: "same_stacks st st"
  by (simp add: same_stacks_def)


lemma same_stacks_updates [simp]:
  "same_stacks st (s\<lparr>graph := g\<rparr>) = same_stacks st s"
  "same_stacks st (s\<lparr>log := l\<rparr>) = same_stacks st s"
  "same_stacks st (s\<lparr>trace := t\<rparr>) = same_stacks st s"
  "same_stacks st (s\<lparr>scopes := sc\<rparr>) = same_stacks st s"
  "same_stacks st (s\<lparr>python_classes := pc\<rparr>) = same_stacks st s"
  "same_stacks st (s\<lparr>next_class := nc\<rparr>) = same_stacks st s"
  "same_stacks st (s\<lparr>next_node := nn\<rparr>) = same_stacks st s"
  "same_stacks st (s\<lparr>failed_nodes := fn\<rparr>) = same_stacks st s"
  "same_stacks st (s\<lparr>connections := cn\<rparr>) = same_stacks st s"
  "same_stacks st (s\<lparr>param_assignments := pa\<rparr>) = same_stacks st s"
  by (simp_all add: same_stacks_def)

lemma same_stacks_helpers [simp]:
  "same_stacks st (add_trace evs s) = same_stacks st s"
  "same_stacks st (downgrade d s) = same_stacks st s"
  "same_stacks st (pop_param p s) = same_stacks st s"
  "same_stacks st (append_assignment p a s) = same_stacks st s"
  "same_stacks st (record_failed_node n nm s) = same_stacks st s"
  "same_stacks st (record_failed_current nm s) = same_stacks st s"
  "same_stacks st (shim it n s) = same_stacks st s"
  by (simp_all add: add_trace_def downgrade_def pop_param_def append_assignment_def
      record_failed_node_def record_failed_current_def shim_def
      split: sum.splits item.splits)







lemma instantiate_stacks: "same_stacks st (snd (instantiate cls u st))"
  by (simp add: instantiate_def)



























section \<open>Building along an inheritance chain\<close>









section \<open>The traceback of a failure in an ancestor\<close>








lemma find_scope_here: "sc c \<noteq> None \<Longrightarrow> find_scope sc c = Some c"
  by (cases c) simp_all











end
